theory Spec2Isabelle
  imports Complex_Main "HOL-Library.AList"
begin

text \<open>
  A model of the interview server (its session store, its timer reconciliation, its
  event handlers and its rule-based grading function \<^verbatim>\<open>analyzeDebugFixes\<close>) and of the
  score card computed by the candidate's page (\<^verbatim>\<open>CandidateInterview.tsx\<close>), followed by
  the properties proved of them.
\<close>

section \<open>JavaScript operators\<close>

text \<open>
  JavaScript truthiness of the two optional fields the server tests in a condition:
  \<^verbatim>\<open>undefined\<close>, \<^verbatim>\<open>false\<close> and \<^verbatim>\<open>0\<close> are falsy.
\<close>

definition truthyBool :: "bool option \<Rightarrow> bool" where
  "truthyBool b = (case b of None \<Rightarrow> False | Some v \<Rightarrow> v)"

definition truthyNum :: "int option \<Rightarrow> bool" where
  "truthyNum n = (case n of None \<Rightarrow> False | Some v \<Rightarrow> v \<noteq> 0)"

text \<open>The nullish coalescing operator \<^verbatim>\<open>x ?? d\<close>.\<close>

definition orElse :: "'a option \<Rightarrow> 'a \<Rightarrow> 'a" where
  "orElse x d = (case x of None \<Rightarrow> d | Some v \<Rightarrow> v)"

section \<open>Source-text inspection\<close>

text \<open>
  The grading engine never runs the candidate's code: it looks for substrings
  (\<^verbatim>\<open>String.prototype.includes\<close>) and for matches of regular expressions
  (\<^verbatim>\<open>String.prototype.match\<close> with a non-global expression).
\<close>

fun startsWith :: "string \<Rightarrow> string \<Rightarrow> bool" where
  "startsWith s [] = True"
| "startsWith [] (p # ps) = False"
| "startsWith (c # cs) (p # ps) = (c = p \<and> startsWith cs ps)"

fun includes' :: "string \<Rightarrow> string \<Rightarrow> bool" where
  "includes' [] needle = (needle = [])"
| "includes' (c # cs) needle = (startsWith (c # cs) needle \<or> includes' cs needle)"

text \<open>
  The regular expressions of the source use literals, character classes under a greedy
  \<^verbatim>\<open>*\<close> or \<^verbatim>\<open>+\<close> or a lazy \<^verbatim>\<open>*?\<close>, alternation and one negative lookahead; every
  quantifier is applied to a character class and every character class stands under a
  quantifier. \<open>rx\<close> is that fragment. In a text of bytes a character takes one to four
  of them, so a character class is a function that gives the number of bytes of the
  character it accepts at the start of a text, and 0 when it accepts none there.
\<close>

type_synonym cls = "string \<Rightarrow> nat"

datatype rx =
    Lit string
  | Star cls
  | Plus cls
  | LazyStar cls
  | Alt rx rx
  | NotAhead rx
  | Cat "rx list"

text \<open>
  \<^verbatim>\<open>\s\<close> accepts the white space and the line terminators of JavaScript, listed here
  by their encodings: tab, line feed, vertical tab, form feed, carriage return and
  space, then U+00A0, U+1680, U+2000 to U+200A, U+2028, U+2029, U+202F, U+205F, U+3000
  and U+FEFF. \<^verbatim>\<open>.\<close> without the \<^verbatim>\<open>s\<close> flag accepts every character but the four line
  terminators: line feed, carriage return, U+2028 and U+2029.
\<close>

definition whiteSpace :: "string list" where
  "whiteSpace =
    [ [CHR 0x09], [CHR 0x0A], [CHR 0x0B], [CHR 0x0C], [CHR 0x0D], [CHR 0x20],
     [CHR 0xC2, CHR 0xA0], [CHR 0xE1, CHR 0x9A, CHR 0x80],
     [CHR 0xE2, CHR 0x80, CHR 0x80], [CHR 0xE2, CHR 0x80, CHR 0x81],
     [CHR 0xE2, CHR 0x80, CHR 0x82], [CHR 0xE2, CHR 0x80, CHR 0x83],
     [CHR 0xE2, CHR 0x80, CHR 0x84], [CHR 0xE2, CHR 0x80, CHR 0x85],
     [CHR 0xE2, CHR 0x80, CHR 0x86], [CHR 0xE2, CHR 0x80, CHR 0x87],
     [CHR 0xE2, CHR 0x80, CHR 0x88], [CHR 0xE2, CHR 0x80, CHR 0x89],
     [CHR 0xE2, CHR 0x80, CHR 0x8A], [CHR 0xE2, CHR 0x80, CHR 0xA8],
     [CHR 0xE2, CHR 0x80, CHR 0xA9], [CHR 0xE2, CHR 0x80, CHR 0xAF],
     [CHR 0xE2, CHR 0x81, CHR 0x9F], [CHR 0xE3, CHR 0x80, CHR 0x80],
     [CHR 0xEF, CHR 0xBB, CHR 0xBF] ]"

definition lineTerminators :: "string list" where
  "lineTerminators =
    [ [CHR 0x0A], [CHR 0x0D], [CHR 0xE2, CHR 0x80, CHR 0xA8], [CHR 0xE2, CHR 0x80, CHR 0xA9] ]"

text \<open>The class of the characters whose encodings are listed.\<close>

fun oneOf :: "string list \<Rightarrow> cls" where
  "oneOf [] s = 0"
| "oneOf (e # es) s = (if startsWith s e then length e else oneOf es s)"

definition ws :: cls where
  "ws = oneOf whiteSpace"

text \<open>
  A class that accepts a character of several bytes whatever the character is takes it
  one byte at a time: \<open>notc x\<close> is \<^verbatim>\<open>[^x]\<close> for an ASCII character \<open>x\<close>, \<open>anyc\<close> is
  \<^verbatim>\<open>[\s\S]\<close>, and \<open>dot\<close> is \<^verbatim>\<open>.\<close>, which accepts no byte where a line terminator starts.
  In the expressions of the source what follows the quantifier of such a class starts
  with an ASCII literal, and no byte of a character of several bytes is an ASCII
  character, so the matches are the same as with whole characters.
\<close>

definition byte :: "(char \<Rightarrow> bool) \<Rightarrow> cls" where
  "byte p s = (case s of [] \<Rightarrow> 0 | c # cs \<Rightarrow> if p c then 1 else 0)"

definition notc :: "char \<Rightarrow> cls" where
  "notc x = byte (\<lambda>c. c \<noteq> x)"

definition anyc :: cls where
  "anyc = byte (\<lambda>c. True)"

definition dot :: cls where
  "dot s = (if oneOf lineTerminators s = 0 then byte (\<lambda>c. True) s else 0)"

text \<open>
  A backtracking matcher tries the ways an expression can match in a fixed order and
  keeps the first that lets the rest of the pattern match. As in the definition of the
  language, the rest of the pattern is a continuation: \<open>run r s k\<close> matches \<open>r\<close> at
  the start of \<open>s\<close> and hands what is left of \<open>s\<close> to \<open>k\<close>; when \<open>k\<close> fails it tries the
  next way. A greedy quantifier tries the longest prefix first, a lazy one the
  shortest. A continuation returns the positions it wants remembered, each as the rest
  of the text there. A class accepts nothing at the end of the text.
\<close>

type_synonym cont = "string \<Rightarrow> string list option"

function greedy :: "cls \<Rightarrow> string \<Rightarrow> cont \<Rightarrow> string list option" where
  "greedy u s k =
    (if s \<noteq> [] \<and> 0 < u s
     then (case greedy u (drop (u s) s) k of None \<Rightarrow> k s | Some m \<Rightarrow> Some m)
     else k s)"
  by pat_completeness auto
termination
  by (relation "measure (\<lambda>(u, s, k). length s)") auto

function lazy :: "cls \<Rightarrow> string \<Rightarrow> cont \<Rightarrow> string list option" where
  "lazy u s k =
    (case k s of
       None \<Rightarrow> if s \<noteq> [] \<and> 0 < u s then lazy u (drop (u s) s) k else None
     | Some m \<Rightarrow> Some m)"
  by pat_completeness auto
termination
  by (relation "measure (\<lambda>(u, s, k). length s)") auto

declare greedy.simps [simp del] lazy.simps [simp del]

fun run :: "rx \<Rightarrow> string \<Rightarrow> cont \<Rightarrow> string list option" where
  "run (Lit l) s k = (if startsWith s l then k (drop (length l) s) else None)"
| "run (Star u) s k = greedy u s k"
| "run (Plus u) s k = (if s \<noteq> [] \<and> 0 < u s then greedy u (drop (u s) s) k else None)"
| "run (LazyStar u) s k = lazy u s k"
| "run (Alt a b) s k = (case run a s k of None \<Rightarrow> run b s k | Some m \<Rightarrow> Some m)"
| "run (NotAhead r) s k = (case run r s (\<lambda>t. Some []) of None \<Rightarrow> k s | Some m \<Rightarrow> None)"
| "run (Cat []) s k = k s"
| "run (Cat (r # rs)) s k = run r s (\<lambda>t. run (Cat rs) t k)"

text \<open>
  \<open>matchAt pre grp post s\<close> matches the expression \<^verbatim>\<open>pre(grp)post\<close> at the start of
  \<open>s\<close>, remembering the text left after \<open>pre\<close>, after the group and after \<open>post\<close>. It
  returns the matched text (index 0 of the match array) and the text of the group
  (index 1).
\<close>

definition matchAt :: "rx \<Rightarrow> rx \<Rightarrow> rx \<Rightarrow> string \<Rightarrow> (string \<times> string) option" where
  "matchAt pre grp post s =
    (case run pre s (\<lambda>a. run grp a (\<lambda>b. run post b (\<lambda>c. Some [a, b, c]))) of
       Some [a, b, c] \<Rightarrow> Some (take (length s - length c) s, take (length a - length b) a)
     | _ \<Rightarrow> None)"

text \<open>\<^verbatim>\<open>s.match(/pre(grp)post/)\<close>: the leftmost position where the expression matches.\<close>

fun match' :: "rx \<Rightarrow> rx \<Rightarrow> rx \<Rightarrow> string \<Rightarrow> (string \<times> string) option" where
  "match' pre grp post [] = matchAt pre grp post []"
| "match' pre grp post (c # cs) =
    (case matchAt pre grp post (c # cs) of
       None \<Rightarrow> match' pre grp post cs
     | Some m \<Rightarrow> Some m)"

text \<open>An expression without a group, used as a condition or for its whole match.\<close>

definition matches :: "rx \<Rightarrow> string \<Rightarrow> bool" where
  "matches r s = (match' r (Cat []) (Cat []) s \<noteq> None)"

definition matchWhole :: "rx \<Rightarrow> string \<Rightarrow> string option" where
  "matchWhole r s = map_option fst (match' r (Cat []) (Cat []) s)"

definition matchGroup :: "rx \<Rightarrow> rx \<Rightarrow> rx \<Rightarrow> string \<Rightarrow> string option" where
  "matchGroup pre grp post s = map_option snd (match' pre grp post s)"

section \<open>Grading engine\<close>

record TestResult =
  name :: string
  passed :: bool
  message :: string

text \<open>
  Every rule pushes \<^verbatim>\<open>{ name, passed: !!h, message: h ? m1 : m2 }\<close> on the result list.
\<close>

definition outcome :: "string \<Rightarrow> bool \<Rightarrow> string \<Rightarrow> string \<Rightarrow> TestResult" where
  "outcome n h m1 m2 = \<lparr>name = n, passed = h, message = (if h then m1 else m2)\<rparr>"

text \<open>
  The marks that open a message, as the bytes the source file holds: most branches
  carry the two marks in a damaged encoding, the \<^verbatim>\<open>java-calculator\<close> branch writes them
  by the escapes of U+2705 and U+274C.
\<close>

definition okMark :: string where
  "okMark = [CHR 0xC3, CHR 0xA2, CHR 0xC5, CHR 0x93, CHR 0xE2, CHR 0x80, CHR 0xA6]"

definition koMark :: string where
  "koMark = [CHR 0xC3, CHR 0xA2, CHR 0xC5, CHR 0x92]"

definition u2705 :: string where
  "u2705 = [CHR 0xE2, CHR 0x9C, CHR 0x85]"

definition u274C :: string where
  "u274C = [CHR 0xE2, CHR 0x9D, CHR 0x8C]"

text \<open>
  The opening of a Java method, \<^verbatim>\<open>public\s+T\s+name\([^)]*\)\s*{\<close>, which most rules
  of \<^verbatim>\<open>selenium-senior\<close> and \<^verbatim>\<open>java-calculator\<close> start with (\<open>T\<close> is empty for a
  constructor).
\<close>

definition methodOpen :: "string \<Rightarrow> string \<Rightarrow> rx" where
  "methodOpen T nm =
    Cat ([Lit ''public'', Plus ws] @ (if T = [] then [] else [Lit T, Plus ws]) @
         [Lit (nm @ ''(''), Star (notc (CHR '')'')), Lit '')'', Star ws, Lit ''{''])"

text \<open>
  The same opening with single spaces, \<^verbatim>\<open>public T name\([^)]*\)\s*\{\<close>, of the older
  challenges.
\<close>

definition methodOpenPlain :: "string \<Rightarrow> rx" where
  "methodOpenPlain sig =
    Cat [Lit (sig @ ''(''), Star (notc (CHR '')'')), Lit '')'', Star ws, Lit ''{'']"

text \<open>\<^verbatim>\<open>/public T name\(.*?\{[\s\S]*?\n\s*\}/\<close>, used for its whole match.\<close>

definition methodLazy :: "string \<Rightarrow> rx" where
  "methodLazy sig =
    Cat [Lit (sig @ ''(''), LazyStar dot, Lit ''{'', LazyStar anyc,
         Lit [CHR 0x0A], Star ws, Lit ''}'']"

text \<open>The branch \<^verbatim>\<open>language === 'selenium-senior'\<close>: ten rules.\<close>

definition seleniumSenior :: "string \<Rightarrow> TestResult list" where
  "seleniumSenior src =
    (let hasWaitInit = matches (Cat [methodOpen [] ''SecureLoginPage'', Star (notc (CHR ''}'')),
             Lit ''this.wait'', Star ws, Lit ''='', Star ws, Lit ''new'', Plus ws,
             Lit ''WebDriverWait'']) src;
         enterMethodCode = orElse (matchGroup (methodOpen ''void'' ''enterCredentials'')
             (Plus (notc (CHR ''}''))) (Lit ''}'') src) [];
         hasWaitInEnter = (includes' enterMethodCode ''wait.until'' \<and>
             (includes' enterMethodCode ''visibilityOfElementLocated'' \<or>
              includes' enterMethodCode ''elementToBeClickable'') \<and>
             \<not> includes' enterMethodCode ''driver.findElement(usernameField)'' \<and>
             \<not> includes' enterMethodCode ''driver.findElement(passwordField)'');
         errorMethodCode = orElse (matchGroup (methodOpen ''String'' ''getErrorMessage'')
             (Plus (notc (CHR ''}''))) (Lit ''}'') src) [];
         hasWaitInError = (includes' errorMethodCode ''wait.until'' \<and>
             includes' errorMethodCode ''visibilityOfElementLocated'' \<and>
             \<not> includes' errorMethodCode ''driver.findElement(errorMessage).getText()'');
         loadMethodCode = orElse (matchGroup (methodOpen ''void'' ''loadUserProfile'')
             (Plus (notc (CHR ''}''))) (Lit ''}'') src) [];
         hasNoThreadSleep = (\<not> includes' loadMethodCode ''Thread.sleep'' \<and>
             includes' loadMethodCode ''wait.until'');
         clickMethodCode = orElse (matchGroup (methodOpen ''void'' ''clickEditButton'')
             (Plus (notc (CHR ''}''))) (Lit ''}'') src) [];
         hasClickableWait = (includes' clickMethodCode ''wait.until'' \<and>
             includes' clickMethodCode ''elementToBeClickable'' \<and>
             \<not> includes' clickMethodCode ''driver.findElement(By.id(\"edit-profile-btn\")).click()'');
         dataMethodCode = orElse (matchGroup (methodOpen ''boolean'' ''isDataLoaded'')
             (Plus (notc (CHR ''}''))) (Lit ''}'') src) [];
         hasWaitInDataLoaded = (includes' dataMethodCode ''wait.until'' \<and>
             includes' dataMethodCode ''visibilityOfElementLocated'' \<and>
             \<not> includes' dataMethodCode ''driver.findElement(By.id(\"profile-data\"))'');
         notifMethodCode = orElse (matchGroup (methodOpen ''int'' ''getNotificationCount'')
             (Plus (notc (CHR ''}''))) (Lit ''}'') src) [];
         hasWaitInNotification = (includes' notifMethodCode ''wait.until'' \<and>
             includes' notifMethodCode ''presenceOfElementLocated'' \<and>
             \<not> includes' notifMethodCode ''driver.findElement(By.className(\"notification-badge\"))'');
         fillMethodCode = orElse (matchGroup (methodOpen ''void'' ''fillUserDetails'')
             (Plus (notc (CHR ''}''))) (Lit ''}'') src) [];
         hasNoAbsoluteXPath = (\<not> includes' fillMethodCode ''/html/body/div[1]/div[2]/form/div[1]/input'' \<and>
             (includes' fillMethodCode ''By.id(\"name\")'' \<or> includes' fillMethodCode ''By.name(''));
         hasNoNthChild = (\<not> includes' fillMethodCode ''nth-child(2)'' \<and>
             (includes' fillMethodCode ''By.id(\"email\")'' \<or> includes' fillMethodCode ''By.name(''));
         submitMethodCode = orElse (matchGroup (methodOpen ''void'' ''submitForm'')
             (Plus (notc (CHR ''}''))) (Lit ''}'') src) [];
         hasNoLinkText = (\<not> includes' submitMethodCode ''By.linkText(\"Submit Registration\")'' \<and>
             (includes' submitMethodCode ''By.id'' \<or> includes' submitMethodCode ''button[type='' \<or>
              includes' submitMethodCode ''data-testid''))
     in [
        outcome ''BUG 1'' (hasWaitInit)
          (okMark @ '' PASS - WebDriverWait initialized in SecureLoginPage constructor'')
          (koMark @ '' FAIL - Add \"this.wait = new WebDriverWait(driver, Duration.ofSeconds(10));\" in constructor''),
        outcome ''BUG 2'' (hasWaitInEnter)
          (okMark @ '' PASS - Explicit waits added in enterCredentials method'')
          (koMark @ '' FAIL - Replace driver.findElement with wait.until(ExpectedConditions.visibilityOfElementLocated(...))''),
        outcome ''BUG 3'' (hasWaitInError)
          (okMark @ '' PASS - Explicit wait added for error message visibility'')
          (koMark @ '' FAIL - Add wait.until(ExpectedConditions.visibilityOfElementLocated(errorMessage)) before getText()''),
        outcome ''BUG 4'' (hasNoThreadSleep)
          (okMark @ '' PASS - Thread.sleep removed and replaced with proper wait'')
          (koMark @ '' FAIL - Remove Thread.sleep and add wait.until(ExpectedConditions.visibilityOfElementLocated(...))''),
        outcome ''BUG 5'' (hasClickableWait)
          (okMark @ '' PASS - elementToBeClickable wait added in clickEditButton'')
          (koMark @ '' FAIL - Use wait.until(ExpectedConditions.elementToBeClickable(...)) before clicking''),
        outcome ''BUG 6'' (hasWaitInDataLoaded)
          (okMark @ '' PASS - Explicit wait added in isDataLoaded for AJAX completion'')
          (koMark @ '' FAIL - Add wait.until(ExpectedConditions.visibilityOfElementLocated(...)) before checking display''),
        outcome ''BUG 7'' (hasWaitInNotification)
          (okMark @ '' PASS - Explicit wait added for notification badge presence'')
          (koMark @ '' FAIL - Add wait.until(ExpectedConditions.presenceOfElementLocated(...)) before getText()''),
        outcome ''BUG 8'' (hasNoAbsoluteXPath)
          (okMark @ '' PASS - Absolute XPath replaced with stable locator (By.id or By.name)'')
          (koMark @ '' FAIL - Replace absolute XPath with By.id(\"name\") or By.name(\"fullName\")''),
        outcome ''BUG 9'' (hasNoNthChild)
          (okMark @ '' PASS - Index-based CSS selector replaced with stable locator'')
          (koMark @ '' FAIL - Replace nth-child selector with By.id(\"email\") or By.name(\"emailAddress\")''),
        outcome ''BUG 10'' (hasNoLinkText)
          (okMark @ '' PASS - linkText replaced with stable, locale-independent locator'')
          (koMark @ '' FAIL - Replace By.linkText with By.id(\"submit-btn\") or By.cssSelector(\"button[type='submit']\")'')
     ])"

text \<open>The branch \<^verbatim>\<open>language === 'java-calculator'\<close>: eight rules.\<close>

definition javaCalculator :: "string \<Rightarrow> TestResult list" where
  "javaCalculator src =
    (let hasCorrectAdd = (includes' src ''a + b'' \<and>
             matches (Cat [methodOpen ''double'' ''add'', Star (notc (CHR ''}'')),
               Lit ''a'', Star ws, Lit ''+'', Star ws, Lit ''b'']) src);
         hasCorrectSubtract = (
             matches (Cat [methodOpen ''double'' ''subtract'', Star (notc (CHR ''}'')),
               Lit ''a'', Star ws, Lit ''-'', Star ws, Lit ''b'']) src \<and>
             \<not> matches (Cat [methodOpen ''double'' ''subtract'', Star (notc (CHR ''}'')),
               Lit ''b'', Star ws, Lit ''-'', Star ws, Lit ''a'']) src);
         hasMultiplyReturn =
             matches (Cat [methodOpen ''double'' ''multiply'', Star (notc (CHR ''}'')),
               Lit ''return'', Plus ws, Lit ''result'']) src;
         hasDivideCheck =
             matches (Cat [methodOpen ''double'' ''divide'', Star (notc (CHR ''}'')),
               Alt (Cat [Lit ''if'', Star ws, Lit ''('', Star ws, Lit ''b'', Star ws, Lit ''=='',
                         Star ws, Lit ''0''])
                   (Cat [Lit ''if'', Star ws, Lit ''('', Star ws, Lit ''0'', Star ws, Lit ''=='',
                         Star ws, Lit ''b''])]) src;
         hasCorrectPower = (
             matches (Cat [Lit ''Math.pow('', Plus (notc (CHR '','')), Lit '','', Star ws,
               Lit ''exponent'', Star ws, Lit '')'']) src \<and>
             \<not> matches (Cat [Lit ''Math.pow('', Plus (notc (CHR '','')), Lit '','', Star ws,
               Lit ''exponent'', Star ws, Lit ''+'', Star ws, Lit ''1'', Star ws, Lit '')'']) src);
         hasCorrectAverage =
             matches (Cat [methodOpen ''double'' ''average'', Star (notc (CHR ''}'')),
               Lit ''sum'', Star ws, Lit ''/'', Star ws, Lit ''numbers.length'',
               NotAhead (Cat [Star ws, Lit ''-'', Star ws, Lit ''1''])]) src;
         hasCorrectMax =
             matches (Cat [methodOpen ''double'' ''findMax'', Star (notc (CHR ''}'')),
               Lit ''if'', Star ws, Lit ''('', Star ws, Lit ''numbers[i]'', Star ws, Lit ''>'',
               Star ws, Lit ''max'', Star ws, Lit '')'']) src;
         hasCorrectHistorySize = (
             matches (Cat [methodOpen ''int'' ''getHistorySize'', Star (notc (CHR ''}'')),
               Lit ''return'', Plus ws, Lit ''history.size()'', Star ws, Lit '';'']) src \<and>
             \<not> matches (Cat [Lit ''return'', Plus ws, Lit ''history.size()'', Star ws,
               Lit ''+'', Star ws, Lit ''1'']) src)
     in [
        outcome ''BUG 1'' (hasCorrectAdd)
          (u2705 @ '' PASS - Addition uses correct + operator (a + b)'')
          (u274C @ '' FAIL - Change \"a - b\" to \"a + b\" in add() method''),
        outcome ''BUG 2'' (hasCorrectSubtract)
          (u2705 @ '' PASS - Subtraction uses correct order (a - b)'')
          (u274C @ '' FAIL - Change \"b - a\" to \"a - b\" in subtract() method''),
        outcome ''BUG 3'' (hasMultiplyReturn)
          (u2705 @ '' PASS - multiply() returns result'')
          (u274C @ '' FAIL - Add \"return result;\" at end of multiply() method''),
        outcome ''BUG 4'' (hasDivideCheck)
          (u2705 @ '' PASS - divide() checks for division by zero'')
          (u274C @ '' FAIL - Add \"if (b == 0) throw new ArithmeticException()\" before dividing''),
        outcome ''BUG 5'' (hasCorrectPower)
          (u2705 @ '' PASS - power() uses correct exponent value'')
          (u274C @ '' FAIL - Remove \"+ 1\" from exponent in Math.pow()''),
        outcome ''BUG 6'' (hasCorrectAverage)
          (u2705 @ '' PASS - average() divides by correct array length'')
          (u274C @ '' FAIL - Remove \"- 1\" from denominator in average() method''),
        outcome ''BUG 7'' (hasCorrectMax)
          (u2705 @ '' PASS - findMax() uses correct > comparison'')
          (u274C @ '' FAIL - Change \"numbers[i] < max\" to \"numbers[i] > max\" in findMax()''),
        outcome ''BUG 8'' (hasCorrectHistorySize)
          (u2705 @ '' PASS - getHistorySize() returns correct history size'')
          (u274C @ '' FAIL - Remove \"+ 1\" from getHistorySize() return statement'')
     ])"

text \<open>
  The three older challenges, and \<^verbatim>\<open>selenium-combined\<close>, which repeats their rules
  under other names and with shorter messages.
\<close>

definition seleniumCombined :: "string \<Rightarrow> TestResult list" where
  "seleniumCombined src =
    (let hasWaitInit = (includes' src ''this.wait = new WebDriverWait'' \<or>
             includes' src ''wait = new WebDriverWait'');
         loginMethodCode = orElse (matchWhole (methodLazy ''public void login'') src) [];
         hasDirectFind = includes' loginMethodCode ''driver.findElement'';
         hasWaitInLogin = (includes' loginMethodCode ''wait.until'' \<and>
             includes' loginMethodCode ''elementToBeClickable'');
         errorMethodCode = orElse (matchWhole (methodLazy ''public String getErrorMessage'') src) [];
         hasDirectFindInError = includes' errorMethodCode ''driver.findElement(errorMessage)'';
         hasWaitInError = (includes' errorMethodCode ''wait.until'' \<and>
             (includes' errorMethodCode ''visibilityOfElementLocated'' \<or>
              includes' errorMethodCode ''presenceOfElementLocated''));
         addProductContent = orElse (matchGroup (methodOpenPlain ''public void addProductToCart'')
             (Star (notc (CHR ''}''))) (Lit ''}'') src) [];
         hasThreadSleepInAdd = includes' addProductContent ''Thread.sleep('';
         hasClickableInAdd = includes' addProductContent ''elementToBeClickable'';
         isProductContent = orElse (matchGroup (methodOpenPlain ''public boolean isProductInCart'')
             (Star (notc (CHR ''}''))) (Lit ''}'') src) [];
         hasTextWaitInCart = includes' isProductContent ''textToBePresentInElement'';
         getCountContent = orElse (matchGroup (methodOpenPlain ''public int getCartItemCount'')
             (Star (notc (CHR ''}''))) (Lit ''}'') src) [];
         hasBadgeWaitInCount = includes' getCountContent ''presenceOfElementLocated'';
         fillFormContent = orElse (matchGroup
             (Cat [Lit ''public void fillRegistrationForm('', Star (notc (CHR '')'')), Lit '')'',
                   Star (notc (CHR ''{'')), Lit ''{''])
             (LazyStar anyc)
             (Cat [Lit [CHR 0x0A], Star ws, Lit ''}'', Star ws, Lit ''public'']) src) src;
         hasAbsXPathInForm = includes' fillFormContent ''/html/body/div[1]'';
         hasIndexInForm = includes' src '':nth-child'';
         hasTextXPathInForm = includes' src ''contains(text(),'';
         hasLinkTextInSubmit = includes' src ''By.linkText''
     in [
        outcome ''Scenario 1: Page Object Pattern - BUG 1'' (hasWaitInit)
          (okMark @ '' PASS - WebDriverWait initialized in constructor'')
          (koMark @ '' FAIL - WebDriverWait object not initialized in constructor''),
        outcome ''Scenario 1: Page Object Pattern - BUG 2'' (\<not> hasDirectFind \<and> hasWaitInLogin)
          (okMark @ '' PASS - Explicit waits added in login() method'')
          (koMark @ '' FAIL - login() method needs explicit waits before element interactions''),
        outcome ''Scenario 1: Page Object Pattern - BUG 3'' (\<not> hasDirectFindInError \<and> hasWaitInError)
          (okMark @ '' PASS - Error message wait condition added'')
          (koMark @ '' FAIL - getErrorMessage() must wait for element visibility''),
        outcome ''Scenario 2: Wait Conditions - BUG 1'' (\<not> hasThreadSleepInAdd)
          (okMark @ '' PASS - Thread.sleep replaced with proper waits'')
          (koMark @ '' FAIL - Thread.sleep found - replace with explicit WebDriverWait''),
        outcome ''Scenario 2: Wait Conditions - BUG 2'' (hasClickableInAdd)
          (okMark @ '' PASS - Using elementToBeClickable() before click'')
          (koMark @ '' FAIL - addProductToCart() needs elementToBeClickable wait''),
        outcome ''Scenario 2: Wait Conditions - BUG 3'' (hasTextWaitInCart)
          (okMark @ '' PASS - Cart update wait condition added'')
          (koMark @ '' FAIL - isProductInCart() needs textToBePresentInElement wait''),
        outcome ''Scenario 2: Wait Conditions - BUG 4'' (hasBadgeWaitInCount)
          (okMark @ '' PASS - Badge wait condition added'')
          (koMark @ '' FAIL - getCartItemCount() needs presenceOfElementLocated wait''),
        outcome ''Scenario 3: Locator Strategy - BUG 1'' (\<not> hasAbsXPathInForm)
          (okMark @ '' PASS - Absolute XPath removed'')
          (koMark @ '' FAIL - Replace absolute XPath with stable ID locator''),
        outcome ''Scenario 3: Locator Strategy - BUG 2'' (\<not> hasIndexInForm)
          (okMark @ '' PASS - Index-based selector removed'')
          (koMark @ '' FAIL - Replace :nth-child selector with ID attribute''),
        outcome ''Scenario 3: Locator Strategy - BUG 3'' (\<not> hasTextXPathInForm)
          (okMark @ '' PASS - Text-based XPath removed'')
          (koMark @ '' FAIL - Replace contains(text(),) XPath with ID locator''),
        outcome ''Scenario 3: Locator Strategy - BUG 4'' (\<not> hasLinkTextInSubmit)
          (okMark @ '' PASS - LinkText replaced with stable locator'')
          (koMark @ '' FAIL - Replace By.linkText with button type selector'')
     ])"

definition seleniumPageobject :: "string \<Rightarrow> TestResult list" where
  "seleniumPageobject src =
    (let hasWaitInit = (includes' src ''this.wait = new WebDriverWait'' \<or>
             includes' src ''wait = new WebDriverWait'');
         loginMethodCode = orElse (matchWhole (methodLazy ''public void login'') src) [];
         hasDirectFind = includes' loginMethodCode ''driver.findElement'';
         hasWaitInLogin = (includes' loginMethodCode ''wait.until'' \<and>
             includes' loginMethodCode ''elementToBeClickable'');
         errorMethodCode = orElse (matchWhole (methodLazy ''public String getErrorMessage'') src) [];
         hasDirectFindInError = includes' errorMethodCode ''driver.findElement(errorMessage)'';
         hasWaitInError = (includes' errorMethodCode ''wait.until'' \<and>
             (includes' errorMethodCode ''visibilityOfElementLocated'' \<or>
              includes' errorMethodCode ''presenceOfElementLocated''))
     in [
        outcome ''Test 1 (BUG 1): Fix WebDriverWait Initialization'' (hasWaitInit)
          (okMark @ '' PASS - WebDriverWait initialized in constructor'')
          (koMark @ '' FAIL - WebDriverWait object not initialized in constructor''),
        outcome ''Test 2 (BUG 2): Fix Login Method Waits'' (\<not> hasDirectFind \<and> hasWaitInLogin)
          (okMark @ '' PASS - Explicit waits added in login() method'')
          (koMark @ '' FAIL - login() method needs explicit waits before element interactions''),
        outcome ''Test 3 (BUG 3): Fix Error Message Wait'' (\<not> hasDirectFindInError \<and> hasWaitInError)
          (okMark @ '' PASS - Error message wait condition added'')
          (koMark @ '' FAIL - getErrorMessage() must wait for element visibility'')
     ])"

definition seleniumWaits :: "string \<Rightarrow> TestResult list" where
  "seleniumWaits src =
    (let addProductContent = orElse (matchGroup (methodOpenPlain ''public void addProductToCart'')
             (Star (notc (CHR ''}''))) (Lit ''}'') src) [];
         hasThreadSleepInAdd = includes' addProductContent ''Thread.sleep('';
         hasClickableInAdd = includes' addProductContent ''elementToBeClickable'';
         isProductContent = orElse (matchGroup (methodOpenPlain ''public boolean isProductInCart'')
             (Star (notc (CHR ''}''))) (Lit ''}'') src) [];
         hasTextWaitInCart = includes' isProductContent ''textToBePresentInElement'';
         getCountContent = orElse (matchGroup (methodOpenPlain ''public int getCartItemCount'')
             (Star (notc (CHR ''}''))) (Lit ''}'') src) [];
         hasBadgeWaitInCount = includes' getCountContent ''presenceOfElementLocated''
     in [
        outcome ''Test 1 (BUG 1): Remove Thread.sleep'' (\<not> hasThreadSleepInAdd)
          (okMark @ '' PASS - Thread.sleep replaced with proper waits'')
          (koMark @ '' FAIL - Thread.sleep found in addProductToCart() - replace with explicit WebDriverWait''),
        outcome ''Test 2 (BUG 2): Add Clickable Wait'' (hasClickableInAdd)
          (okMark @ '' PASS - Using elementToBeClickable() before click in addProductToCart()'')
          (koMark @ '' FAIL - addProductToCart() needs elementToBeClickable wait before interaction''),
        outcome ''Test 3 (BUG 3): Add Cart Update Wait'' (hasTextWaitInCart)
          (okMark @ '' PASS - Cart update wait condition added in isProductInCart()'')
          (koMark @ '' FAIL - isProductInCart() needs textToBePresentInElement wait for cart update''),
        outcome ''Test 4 (BUG 4): Add Badge Presence Wait'' (hasBadgeWaitInCount)
          (okMark @ '' PASS - Badge wait condition added in getCartItemCount()'')
          (koMark @ '' FAIL - getCartItemCount() needs presenceOfElementLocated wait for badge'')
     ])"

definition seleniumLocators :: "string \<Rightarrow> TestResult list" where
  "seleniumLocators src =
    (let fillFormContent = orElse (matchGroup
             (Cat [Lit ''public void fillRegistrationForm('', Star (notc (CHR '')'')), Lit '')'',
                   Star (notc (CHR ''{'')), Lit ''{''])
             (LazyStar anyc)
             (Cat [Lit [CHR 0x0A], Star ws, Lit ''}'', Star ws, Lit ''public'']) src) src;
         hasAbsXPathInForm = includes' fillFormContent ''/html/body/div[1]'';
         hasIndexInForm = includes' src '':nth-child'';
         hasTextXPathInForm = includes' src ''contains(text(),'';
         hasLinkTextInSubmit = includes' src ''By.linkText''
     in [
        outcome ''Test 1 (BUG 1): Fix Absolute XPath'' (\<not> hasAbsXPathInForm)
          (okMark @ '' PASS - Absolute XPath removed from fillRegistrationForm()'')
          (koMark @ '' FAIL - fillRegistrationForm() has absolute XPath /html/body/... - use stable ID locator''),
        outcome ''Test 2 (BUG 2): Fix Index-Based Selector'' (\<not> hasIndexInForm)
          (okMark @ '' PASS - Index-based selector removed from fillRegistrationForm()'')
          (koMark @ '' FAIL - fillRegistrationForm() has :nth-child selector - use ID attribute''),
        outcome ''Test 3 (BUG 3): Fix Text-Based XPath'' (\<not> hasTextXPathInForm)
          (okMark @ '' PASS - Text-based XPath removed from fillRegistrationForm()'')
          (koMark @ '' FAIL - fillRegistrationForm() has contains(text(),) XPath - use ID locator''),
        outcome ''Test 4 (BUG 4): Fix LinkText Locator'' (\<not> hasLinkTextInSubmit)
          (okMark @ '' PASS - LinkText replaced with stable locator in submitForm()'')
          (koMark @ '' FAIL - submitForm() uses By.linkText - use button type selector instead'')
     ])"

text \<open>
  \<^verbatim>\<open>analyzeDebugFixes\<close>: three \<^verbatim>\<open>if\<close> branches that return, then a \<^verbatim>\<open>switch\<close> whose
  \<^verbatim>\<open>default\<close> case pushes one failed result.
\<close>

definition analyzeDebugFixes :: "string \<Rightarrow> string \<Rightarrow> TestResult list" where
  "analyzeDebugFixes src lang =
    (if lang = ''selenium-senior'' then seleniumSenior src
     else if lang = ''java-calculator'' then javaCalculator src
     else if lang = ''selenium-combined'' then seleniumCombined src
     else if lang = ''selenium-pageobject'' then seleniumPageobject src
     else if lang = ''selenium-waits'' then seleniumWaits src
     else if lang = ''selenium-locators'' then seleniumLocators src
     else [\<lparr>name = ''Unknown Test'', passed = False,
            message = ''Select a debugging challenge to see test results''\<rparr>])"

section \<open>Execution summary\<close>

text \<open>
  The \<^verbatim>\<open>execute-code\<close> handler renders the test results as console text. The text is
  kept here as the list of its lines, one constructor for each template the handler
  appends, with the values it interpolates; the frame lines, which carry no value, are
  left out. \<open>BugLine name passed points\<close> is
  \<^verbatim>\<open>${icon} ${test.name}: ${status} [${points} point]\<close>, where icon, status and points are
  all chosen by \<^verbatim>\<open>test.passed\<close> and points is \<^verbatim>\<open>'1.0'\<close> or \<^verbatim>\<open>'0.0'\<close>.
\<close>

datatype line =
    Banner
  | ScenarioHeader nat
  | BugLine string bool rat
  | IndexedBugLine nat bool
  | TestLine nat string
  | MessageLine string
  | BugsFixed nat nat
  | Score rat
  | Excellent
  | GoodJob nat
  | KeepDebugging nat

text \<open>\<^verbatim>\<open>Array.prototype.slice(a, b)\<close> for indices within \<open>0 \<le> a \<le> b\<close>.\<close>

definition slice :: "nat \<Rightarrow> nat \<Rightarrow> 'a list \<Rightarrow> 'a list" where
  "slice a b xs = take (b - a) (drop a xs)"

definition seniorLines :: "TestResult list \<Rightarrow> line list" where
  "seniorLines tests =
    concat (map (\<lambda>test. [BugLine (name test) (passed test) (if passed test then 1 else 0),
                           MessageLine (message test)]) tests)"

definition calculatorLines :: "TestResult list \<Rightarrow> line list" where
  "calculatorLines tests =
    concat (map (\<lambda>(index, test). [IndexedBugLine (index + 1) (passed test),
                                    MessageLine (message test)])
                (zip [0 ..< length tests] tests))"

definition legacyLines :: "TestResult list \<Rightarrow> line list" where
  "legacyLines tests =
    concat (map (\<lambda>(index, test). [TestLine (index + 1) (name test),
                                    MessageLine (message test)])
                (zip [0 ..< length tests] tests))"

text \<open>
  \<^verbatim>\<open>passedTests\<close>, \<^verbatim>\<open>totalTests\<close> and \<^verbatim>\<open>totalPoints = passedTests * 1.0\<close>: every
  passed test is worth one point, whatever the challenge.
\<close>

definition passedTests :: "TestResult list \<Rightarrow> nat" where
  "passedTests testResults = length (filter passed testResults)"

definition totalTests :: "TestResult list \<Rightarrow> nat" where
  "totalTests testResults = length testResults"

definition totalPoints :: "TestResult list \<Rightarrow> rat" where
  "totalPoints testResults = of_nat (passedTests testResults) * 1"

definition success :: "TestResult list \<Rightarrow> bool" where
  "success testResults = (passedTests testResults = totalTests testResults)"

definition renderOutput :: "string \<Rightarrow> TestResult list \<Rightarrow> line list" where
  "renderOutput lang testResults =
    (if lang = ''selenium-senior'' then
       [Banner, ScenarioHeader 1] @ seniorLines (slice 0 3 testResults) @
       [ScenarioHeader 2] @ seniorLines (slice 3 7 testResults) @
       [ScenarioHeader 3] @ seniorLines (slice 7 10 testResults)
     else if lang = ''java-calculator'' then
       [ScenarioHeader 1] @ calculatorLines (slice 0 3 testResults) @
       [ScenarioHeader 2] @ calculatorLines (slice 3 7 testResults) @
       [ScenarioHeader 3] @ calculatorLines (slice 7 11 testResults)
     else legacyLines testResults) @
    [BugsFixed (passedTests testResults) (totalTests testResults),
     Score (totalPoints testResults)] @
    (if passedTests testResults = totalTests testResults then [Excellent]
     else if 7 \<le> passedTests testResults
       then [GoodJob (totalTests testResults - passedTests testResults)]
     else [KeepDebugging (totalTests testResults - passedTests testResults)])"

section \<open>Session data model\<close>

text \<open>
  The server keeps every interview session in one process-wide
  \<^verbatim>\<open>Map<string, InterviewSession>\<close>. The interface \<^verbatim>\<open>InterviewSession\<close> is a
  record; its optional fields are options (\<open>None\<close> is JavaScript's \<^verbatim>\<open>undefined\<close>).
  \<^verbatim>\<open>problemDescription\<close> is declared a string, but \<^verbatim>\<open>create-session\<close> can leave it
  undefined, so it is an option too.
  Durations are whole seconds and time stamps are the milliseconds of
  \<^verbatim>\<open>Date.now()\<close>, both integers. A JavaScript string is modelled as the list of
  bytes of its UTF-8 encoding. The field \<^verbatim>\<open>output\<close> holds the console text of the last
  run, as the list of its lines; \<^verbatim>\<open>id\<close> and \<^verbatim>\<open>output\<close> are primed because the plain
  names are taken.
\<close>

datatype status = waiting | active | completed

record InterviewSession =
  id' :: string
  candidateName :: string
  problem :: string
  problemDescription :: "string option"
  code :: string
  language :: string
  status :: status
  output' :: "line list option"
  createdAt :: int
  isInstructionPhase :: "bool option"
  instructionTimeRemaining :: "int option"
  codingTimeRemaining :: "int option"
  lastTimerUpdate :: "int option"

section \<open>Timer reconciliation\<close>

text \<open>
  \<^verbatim>\<open>Math.floor((Date.now() - session.lastTimerUpdate) / 1000)\<close>: integer division
  in HOL rounds towards minus infinity, as \<^verbatim>\<open>Math.floor\<close> does.
\<close>

definition elapsedSeconds :: "int \<Rightarrow> int \<Rightarrow> int" where
  "elapsedSeconds now stamp = (now - stamp) div 1000"

text \<open>
  \<^verbatim>\<open>getSessionWithAdjustedTimer\<close>, with the clock reading \<open>now\<close> as a parameter.
  The elapsed time is computed only after the stamp has been found truthy, where
  \<open>orElse (lastTimerUpdate session) 0\<close> is the stamp. The object the function returns in
  its last branch is a copy of the session with both durations set.
\<close>

definition getSessionWithAdjustedTimer :: "int \<Rightarrow> InterviewSession \<Rightarrow> InterviewSession" where
  "getSessionWithAdjustedTimer now session =
    (if \<not> truthyNum (lastTimerUpdate session) then session
     else
       let elapsed = elapsedSeconds now (orElse (lastTimerUpdate session) 0) in
       if elapsed \<le> 0 then session
       else
         let adjustedInstructionTime =
               (if truthyBool (isInstructionPhase session)
                then max 0 (orElse (instructionTimeRemaining session) 60 - elapsed)
                else orElse (instructionTimeRemaining session) 60);
             adjustedCodingTime =
               (if truthyBool (isInstructionPhase session)
                then orElse (codingTimeRemaining session) 900
                else max 0 (orElse (codingTimeRemaining session) 900 - elapsed))
         in session\<lparr>instructionTimeRemaining := Some adjustedInstructionTime,
                     codingTimeRemaining := Some adjustedCodingTime\<rparr>)"


section \<open>Session store and events\<close>

text \<open>
  The store is the \<^verbatim>\<open>Map\<close> of the server in insertion order: \<^verbatim>\<open>sessions.get\<close> is
  \<open>map_of\<close>, \<^verbatim>\<open>sessions.set\<close> is \<open>AList.update\<close>, which keeps the place of a key
  that is present and appends a new one, and \<^verbatim>\<open>sessions.values()\<close> is \<open>map snd\<close>.
  A handler mutates the session object it got from the map; the model writes the
  changed record back under the same key.
\<close>

type_synonym sessions = "(string \<times> InterviewSession) list"

text \<open>
  What a handler sends: \<^verbatim>\<open>socket.emit\<close> reaches the connection the event came from,
  \<^verbatim>\<open>socket.broadcast.emit\<close> every connection but that one, \<^verbatim>\<open>io.emit\<close> every
  connection. Rooms are joined (\<^verbatim>\<open>socket.join\<close>) but no handler sends to a room.
\<close>

datatype audience = Caller | Others | Everyone

definition recipients :: "'c set \<Rightarrow> 'c \<Rightarrow> audience \<Rightarrow> 'c set" where
  "recipients conns sender a =
    (case a of Caller \<Rightarrow> {sender} | Others \<Rightarrow> conns - {sender} | Everyone \<Rightarrow> conns)"

text \<open>The score card the candidate's page computes and submits.\<close>

record BugResult =
  bugNumber :: nat
  passed' :: bool
  points :: rat

record submission =
  sessionId :: string
  submittedName :: "string option"
  score :: rat
  percentage :: int
  bugsPassed :: nat
  totalBugs :: nat
  completedChallenges :: "string list"
  bugResults :: "(string \<times> BugResult list) list"
  timeUsed :: int
  submittedAt :: string
  isAutoSubmit :: bool

datatype event =
    SessionsList "InterviewSession list"
  | SessionCreated InterviewSession
  | SessionNotFound
  | SessionExpired string
  | SessionData InterviewSession
  | CodeUpdate string string string
  | LanguageUpdate string string
  | TimerUpdate string bool int int
  | ExecutionResult string "line list" bool
  | ExecutionUpdate string "line list" bool
  | PasteDetected string string string
  | CandidateTestResults submission

type_synonym emission = "audience \<times> event"

section \<open>Event handlers\<close>

text \<open>
  Each handler takes the payload of its event and the store, and returns the store
  and the emissions in the order they are sent. The clock is read once for an event
  (\<open>now\<close>); the fresh identifier of a new session (\<^verbatim>\<open>uuidv4()\<close>) and the starter
  text \<^verbatim>\<open>defaultCode\<close> that \<^verbatim>\<open>create-session\<close> copies into it are parameters.
\<close>

definition getSessions :: "int \<Rightarrow> sessions \<Rightarrow> sessions \<times> emission list" where
  "getSessions now store =
    (store, [(Caller, SessionsList (map (getSessionWithAdjustedTimer now) (map snd store)))])"

text \<open>
  The table \<^verbatim>\<open>problems\<close>, of which \<^verbatim>\<open>create-session\<close> reads the description:
  \<^verbatim>\<open>problems[problemTitle] || problems['Selenium Debugging']\<close>. The table is an object
  literal, so a title that names a property every object inherits from
  \<^verbatim>\<open>Object.prototype\<close> finds that property: a function, or the prototype itself for
  \<^verbatim>\<open>__proto__\<close>. Each is truthy and has no \<^verbatim>\<open>description\<close>.
\<close>

definition problems :: "(string \<times> string) list" where
  "problems =
    [(''Selenium Debugging'',
      ''Debugging Challenge: Find and fix bugs in Selenium WebDriver automation code.'' @ [CHR 0x0A] @
      ''    '' @ [CHR 0x0A] @
      ''Common issues include:'' @ [CHR 0x0A] @
      ''- Missing WebDriverWait initialization'' @ [CHR 0x0A] @
      ''- Using Thread.sleep instead of explicit waits'' @ [CHR 0x0A] @
      ''- Fragile locators (absolute XPath, index-based selectors)'' @ [CHR 0x0A] @
      ''- No wait conditions for dynamic elements''),
     (''SpringBoot Testing'',
      ''Debugging Challenge: Fix issues in SpringBoot unit tests and mocks.'' @ [CHR 0x0A] @
      ''    '' @ [CHR 0x0A] @
      ''Common issues include:'' @ [CHR 0x0A] @
      ''- Missing MockitoAnnotations.openMocks()'' @ [CHR 0x0A] @
      ''- Incorrect Optional handling in mocks'' @ [CHR 0x0A] @
      ''- Wrong repository methods being mocked'' @ [CHR 0x0A] @
      ''- Assertion mismatches'')]"

definition inherited :: "string list" where
  "inherited =
    [''constructor'', ''__defineGetter__'', ''__defineSetter__'', ''hasOwnProperty'',
     ''__lookupGetter__'', ''__lookupSetter__'', ''isPrototypeOf'', ''propertyIsEnumerable'',
     ''toString'', ''valueOf'', ''__proto__'', ''toLocaleString'']"

definition createSession ::
  "string \<Rightarrow> int \<Rightarrow> string \<Rightarrow> string \<Rightarrow> string \<Rightarrow> sessions
     \<Rightarrow> sessions \<times> emission list" where
  "createSession newId now defaultCode name' problemTitle store =
    (let description = (case map_of problems problemTitle of
                          None \<Rightarrow> if problemTitle \<in> set inherited then None
                                  else map_of problems ''Selenium Debugging''
                        | Some d \<Rightarrow> Some d);
         session = \<lparr>id' = newId, candidateName = name', problem = problemTitle,
                     problemDescription = description, code = defaultCode,
                     language = ''selenium-senior'', status = waiting, output' = None,
                     createdAt = now, isInstructionPhase = None,
                     instructionTimeRemaining = None, codingTimeRemaining = None,
                     lastTimerUpdate = None\<rparr>
     in (AList.update newId session store, [(Everyone, SessionCreated session)]))"

text \<open>
  \<^verbatim>\<open>join-session\<close>. Unlike \<^verbatim>\<open>getSessionWithAdjustedTimer\<close> the handler subtracts the
  elapsed seconds also when they are not positive. It treats an absent phase flag as
  the coding phase when it adjusts the durations, and reports it as the instruction
  phase (\<^verbatim>\<open>session.isInstructionPhase ?? true\<close>) in the payload it sends.
\<close>

definition joinSession :: "int \<Rightarrow> string \<Rightarrow> sessions \<Rightarrow> sessions \<times> emission list" where
  "joinSession now sid store =
    (case map_of store sid of
       None \<Rightarrow> (store, [(Caller, SessionNotFound)])
     | Some session \<Rightarrow>
         if status session = completed then
           (store, [(Caller, SessionExpired
              ''This interview session has been completed and the link is no longer valid.'')])
         else
           let elapsed = elapsedSeconds now (orElse (lastTimerUpdate session) 0);
               adjustedInstructionTime =
                 (if truthyNum (lastTimerUpdate session) \<and> truthyBool (isInstructionPhase session)
                  then max 0 (orElse (instructionTimeRemaining session) 60 - elapsed)
                  else orElse (instructionTimeRemaining session) 60);
               adjustedCodingTime =
                 (if truthyNum (lastTimerUpdate session) \<and> \<not> truthyBool (isInstructionPhase session)
                  then max 0 (orElse (codingTimeRemaining session) 900 - elapsed)
                  else orElse (codingTimeRemaining session) 900);
               joined = session\<lparr>status := active,
                                 instructionTimeRemaining := Some adjustedInstructionTime,
                                 codingTimeRemaining := Some adjustedCodingTime,
                                 lastTimerUpdate := Some now\<rparr>;
               store' = AList.update sid joined store
           in (store',
               [(Caller, SessionData (joined\<lparr>
                    isInstructionPhase := Some (orElse (isInstructionPhase joined) True),
                    instructionTimeRemaining := Some adjustedInstructionTime,
                    codingTimeRemaining := Some adjustedCodingTime\<rparr>)),
                (Everyone, SessionsList
                    (map (getSessionWithAdjustedTimer now) (map snd store')))]))"

text \<open>
  \<^verbatim>\<open>code-change\<close>: the optional \<^verbatim>\<open>language\<close> of the payload replaces the session's only
  when it is truthy, that is present and not the empty string.
\<close>

definition codeChange ::
  "string \<Rightarrow> string \<Rightarrow> string option \<Rightarrow> sessions \<Rightarrow> sessions \<times> emission list" where
  "codeChange sid newCode newLanguage store =
    (case map_of store sid of
       None \<Rightarrow> (store, [])
     | Some session \<Rightarrow>
         let changed = session\<lparr>code := newCode,
               language := (case newLanguage of
                              None \<Rightarrow> language session
                            | Some l \<Rightarrow> if l = [] then language session else l)\<rparr>
         in (AList.update sid changed store,
             [(Others, CodeUpdate sid newCode (language changed))]))"

definition languageChange :: "string \<Rightarrow> string \<Rightarrow> sessions \<Rightarrow> sessions \<times> emission list" where
  "languageChange sid newLanguage store =
    (case map_of store sid of
       None \<Rightarrow> (store, [])
     | Some session \<Rightarrow>
         (AList.update sid (session\<lparr>language := newLanguage\<rparr>) store,
          [(Others, LanguageUpdate sid newLanguage)]))"

definition timerUpdate ::
  "int \<Rightarrow> string \<Rightarrow> bool \<Rightarrow> int \<Rightarrow> int \<Rightarrow> sessions \<Rightarrow> sessions \<times> emission list" where
  "timerUpdate now sid phase instructionTime codingTime store =
    (case map_of store sid of
       None \<Rightarrow> (store, [])
     | Some session \<Rightarrow>
         (AList.update sid (session\<lparr>isInstructionPhase := Some phase,
                                     instructionTimeRemaining := Some instructionTime,
                                     codingTimeRemaining := Some codingTime,
                                     lastTimerUpdate := Some now\<rparr>) store,
          [(Everyone, TimerUpdate sid phase instructionTime codingTime)]))"

text \<open>
  \<^verbatim>\<open>execute-code\<close>: the result goes to the caller whether or not the session exists;
  it is stored and sent to everyone only when it does. With a string for \<^verbatim>\<open>code\<close>
  nothing in the \<^verbatim>\<open>try\<close> block throws, so the \<^verbatim>\<open>catch\<close> branch has no counterpart.
\<close>

definition executeCode ::
  "string \<Rightarrow> string \<Rightarrow> string \<Rightarrow> sessions \<Rightarrow> sessions \<times> emission list" where
  "executeCode sid src lang store =
    (let testResults = analyzeDebugFixes src lang;
         out = renderOutput lang testResults;
         ok = success testResults
     in case map_of store sid of
          None \<Rightarrow> (store, [(Caller, ExecutionResult sid out ok)])
        | Some session \<Rightarrow>
            (AList.update sid (session\<lparr>output' := Some out\<rparr>) store,
             [(Caller, ExecutionResult sid out ok), (Everyone, ExecutionUpdate sid out ok)]))"

text \<open>\<^verbatim>\<open>paste-attempt\<close>; \<open>timestamp\<close> is the clock rendered by \<^verbatim>\<open>toLocaleTimeString\<close>.\<close>

definition pasteAttempt :: "string \<Rightarrow> string \<Rightarrow> sessions \<Rightarrow> sessions \<times> emission list" where
  "pasteAttempt timestamp sid store =
    (case map_of store sid of
       None \<Rightarrow> (store, [])
     | Some session \<Rightarrow>
         (store, [(Everyone, PasteDetected sid (candidateName session) timestamp)]))"

definition testSubmitted :: "submission \<Rightarrow> sessions \<Rightarrow> sessions \<times> emission list" where
  "testSubmitted results store =
    ((case map_of store (sessionId results) of
        None \<Rightarrow> store
      | Some session \<Rightarrow>
          AList.update (sessionId results) (session\<lparr>status := completed\<rparr>) store),
     [(Everyone, CandidateTestResults results)])"

section \<open>Score card of the candidate's page\<close>

text \<open>
  The page keeps \<^verbatim>\<open>bugResults\<close>, the bug results of every challenge run so far, and
  \<^verbatim>\<open>totalPoints\<close>. For every line of an execution result that reports a bug it builds
  a \<open>BugResult\<close> with \<^verbatim>\<open>points = passed ? 1.0 : 0\<close>. Numbers are rationals here: the
  points, their sums and ten times their sums are whole numbers, which the doubles of
  JavaScript represent exactly.
\<close>

definition bugResult :: "nat \<Rightarrow> bool \<Rightarrow> BugResult" where
  "bugResult n p = \<lparr>bugNumber = n, passed' = p, points = (if p then 1 else 0)\<rparr>"

record page =
  pageBugResults :: "(string \<times> BugResult list) list"
  pageTotalPoints :: rat

text \<open>The state a page starts in: \<^verbatim>\<open>useState({})\<close> and \<^verbatim>\<open>useState(0)\<close>.\<close>

definition initialPage :: page where
  "initialPage = \<lparr>pageBugResults = [], pageTotalPoints = 0\<rparr>"

text \<open>
  \<^verbatim>\<open>Object.values(updatedResults).flat().reduce((sum, bug) => sum + bug.points, 0)\<close>.
  The order in which an object lists its values does not change a sum.
\<close>

definition sumPoints :: "(string \<times> BugResult list) list \<Rightarrow> rat" where
  "sumPoints results = sum_list (map points (concat (map snd results)))"

text \<open>
  The part of the \<^verbatim>\<open>execution-result\<close> handler that follows the parsing of the lines:
  with at least one bug result, the results of the current challenge are replaced and
  the total is recomputed and capped at 10.
\<close>

definition onExecutionResult :: "string \<Rightarrow> BugResult list \<Rightarrow> page \<Rightarrow> page" where
  "onExecutionResult lang bugTestResults pg =
    (if 0 < length bugTestResults then
       let updatedResults = AList.update lang bugTestResults (pageBugResults pg);
           total = sumPoints updatedResults;
           cappedTotal = min total 10
       in \<lparr>pageBugResults = updatedResults, pageTotalPoints = cappedTotal\<rparr>
     else pg)"

text \<open>\<^verbatim>\<open>Math.round\<close> rounds to the nearest integer, a half upwards.\<close>

definition mathRound :: "rat \<Rightarrow> int" where
  "mathRound x = \<lfloor>x + 1 / 2\<rfloor>"

record scoreCard =
  cardScore :: rat
  cardPercentage :: int
  cardBugsPassed :: nat
  cardTotalBugs :: nat

definition calculateScore :: "page \<Rightarrow> scoreCard" where
  "calculateScore pg =
    (let allBugs = concat (map snd (pageBugResults pg));
         rawScore = of_int (mathRound (pageTotalPoints pg * 10)) / 10;
         sc = min rawScore 10
     in \<lparr>cardScore = sc,
         cardPercentage = mathRound ((sc / 10) * 100),
         cardBugsPassed = length (filter passed' allBugs),
         cardTotalBugs = length allBugs\<rparr>)"

section \<open>Definitions used by the statements\<close>

text \<open>
  The challenge identifiers \<^verbatim>\<open>analyzeDebugFixes\<close> compares \<^verbatim>\<open>language\<close> with: the three
  \<^verbatim>\<open>if\<close> branches and the three \<^verbatim>\<open>case\<close> labels of the \<^verbatim>\<open>switch\<close>.
\<close>

definition configured :: "string list" where
  "configured = [''selenium-senior'', ''java-calculator'', ''selenium-combined'',
                 ''selenium-pageobject'', ''selenium-waits'', ''selenium-locators'']"

text \<open>
  The events a connection \<open>c\<close> receives from the emissions of one handled event, sent
  on behalf of the connection \<open>sender\<close> while the connections \<open>conns\<close> are open.
\<close>

definition inbox :: "'c set \<Rightarrow> 'c \<Rightarrow> emission list \<Rightarrow> 'c \<Rightarrow> event list" where
  "inbox conns sender ems c =
    map snd (filter (\<lambda>em. c \<in> recipients conns sender (fst em)) ems)"

text \<open>
  The text that accompanies \<^verbatim>\<open>session-expired\<close>.
\<close>

definition expiredMessage :: string where
  "expiredMessage = ''This interview session has been completed and the link is no longer valid.''"


text \<open>
  A session whose timer has been stamped carries both remaining durations: the two
  handlers that stamp it, \<^verbatim>\<open>join-session\<close> and \<^verbatim>\<open>timer-update\<close>, store both. The stores the
  server can reach from the empty one are those built by its handlers.
\<close>

definition timerComplete :: "InterviewSession \<Rightarrow> bool" where
  "timerComplete s =
    (lastTimerUpdate s = None \<or>
     (instructionTimeRemaining s \<noteq> None \<and> codingTimeRemaining s \<noteq> None))"

definition storeComplete :: "sessions \<Rightarrow> bool" where
  "storeComplete store = list_all (\<lambda>entry. timerComplete (snd entry)) store"

inductive reachable :: "sessions \<Rightarrow> bool" where
  start: "reachable []"
| create: "reachable store \<Longrightarrow>
    reachable (fst (createSession newId now defaultCode name' problemTitle store))"
| join: "reachable store \<Longrightarrow> reachable (fst (joinSession now sid store))"
| change: "reachable store \<Longrightarrow> reachable (fst (codeChange sid newCode newLanguage store))"
| lang: "reachable store \<Longrightarrow> reachable (fst (languageChange sid newLanguage store))"
| timer: "reachable store \<Longrightarrow>
    reachable (fst (timerUpdate now sid phase instructionTime codingTime store))"
| execute: "reachable store \<Longrightarrow> reachable (fst (executeCode sid src lang store))"
| paste: "reachable store \<Longrightarrow> reachable (fst (pasteAttempt timestamp sid store))"
| submit: "reachable store \<Longrightarrow> reachable (fst (testSubmitted results store))"
| list: "reachable store \<Longrightarrow> reachable (fst (getSessions now store))"

text \<open>
  Bug outcomes as the candidate's page reads them off an execution result, a bug number
  and a pass flag each, and the relation between two outcome lists of which the second
  differs from the first only by outcomes that went from fail to pass.
\<close>

definition bugResultsOf :: "(nat \<times> bool) list \<Rightarrow> BugResult list" where
  "bugResultsOf outcomes = map (\<lambda>(n, p). bugResult n p) outcomes"

definition flipsToPass :: "(nat \<times> bool) list \<Rightarrow> (nat \<times> bool) list \<Rightarrow> bool" where
  "flipsToPass xs ys = list_all2 (\<lambda>a b. fst a = fst b \<and> (snd b \<or> \<not> snd a)) xs ys"

text \<open>
  The first character every match of an expression starts with, when its first
  component is a literal. A scan uses it to leave out the positions where no match can
  start.
\<close>

fun lead :: "rx \<Rightarrow> char option" where
  "lead (Lit (k # l)) = Some k"
| "lead (Cat (r # rs)) = lead r"
| "lead r = None"

subsection \<open>Concrete sessions, texts and outcomes\<close>

text \<open>
  A session in its coding phase with 120 seconds left, stamped at the clock reading
  1000000, and the same session after its submission.
\<close>

definition exampleSession :: InterviewSession where
  "exampleSession =
    \<lparr>id' = ''s1'', candidateName = ''Ada'', problem = ''Selenium Debugging'',
     problemDescription = Some ''Debugging Challenge'', code = ''// start'',
     language = ''selenium-senior'', status = active, output' = None, createdAt = 1000,
     isInstructionPhase = Some False, instructionTimeRemaining = Some 0,
     codingTimeRemaining = Some 120, lastTimerUpdate = Some 1000000\<rparr>"

definition finishedSession :: InterviewSession where
  "finishedSession = exampleSession\<lparr>status := completed\<rparr>"

definition exampleSubmission :: submission where
  "exampleSubmission =
    \<lparr>sessionId = ''s1'', submittedName = Some ''Ada'', score = 3, percentage = 30,
     bugsPassed = 3, totalBugs = 10, completedChallenges = [],
     bugResults = [], timeUsed = 780, submittedAt = ''2025-01-01T10:00:00.000Z'',
     isAutoSubmit = False\<rparr>"





text \<open>
  A source text in which every rule of \<^verbatim>\<open>selenium-senior\<close> is satisfied, and one that
  satisfies the four rules of \<^verbatim>\<open>selenium-locators\<close>.
\<close>

definition seniorSolved :: string where
  "seniorSolved =
     ''public SecureLoginPage() { this.wait = new WebDriverWait(d); }'' @ [CHR 0x0A] @
     ''public void enterCredentials() { wait.until(visibilityOfElementLocated(u)); }'' @ [CHR 0x0A] @
     ''public String getErrorMessage() { wait.until(visibilityOfElementLocated(e)); }'' @ [CHR 0x0A] @
     ''public void loadUserProfile() { wait.until(p); }'' @ [CHR 0x0A] @
     ''public void clickEditButton() { wait.until(elementToBeClickable(b)); }'' @ [CHR 0x0A] @
     ''public boolean isDataLoaded() { wait.until(visibilityOfElementLocated(t)); }'' @ [CHR 0x0A] @
     ''public int getNotificationCount() { wait.until(presenceOfElementLocated(n)); }'' @ [CHR 0x0A] @
     ''public void fillUserDetails() { By.name(\"n\"); }'' @ [CHR 0x0A] @
     ''public void submitForm() { By.id(\"s\"); }'' @ [CHR 0x0A]"

definition locatorsClean :: string where
  "locatorsClean = ''driver.findElement(By.id(\"name\")).sendKeys(name);''"

text \<open>
  Outcome lists: three bugs of which the first is fixed, the same with the second
  fixed as well, and eleven fixed bugs.
\<close>

definition threeBugsOnePassed :: "(nat \<times> bool) list" where
  "threeBugsOnePassed = [(1, True), (2, False), (3, False)]"

definition threeBugsTwoPassed :: "(nat \<times> bool) list" where
  "threeBugsTwoPassed = [(1, True), (2, True), (3, False)]"

definition elevenBugsPassed :: "(nat \<times> bool) list" where
  "elevenBugsPassed = map (\<lambda>n. (n, True)) [1, 2, 3, 4, 5, 6, 7, 8, 9, 10, 11]"

section \<open>Properties of the grading engine\<close>

lemma passed_outcome [simp]: "passed (outcome n h m1 m2) = h"
  by (simp add: outcome_def)

lemma name_outcome [simp]: "name (outcome n h m1 m2) = n"
  by (simp add: outcome_def)

lemma length_seleniumSenior: "length (seleniumSenior src) = 10"
  by (simp add: seleniumSenior_def Let_def)

lemma length_javaCalculator: "length (javaCalculator src) = 8"
  by (simp add: javaCalculator_def Let_def)

lemma length_seleniumCombined: "length (seleniumCombined src) = 11"
  by (simp add: seleniumCombined_def Let_def)

lemma length_seleniumPageobject: "length (seleniumPageobject src) = 3"
  by (simp add: seleniumPageobject_def Let_def)

lemma length_seleniumWaits: "length (seleniumWaits src) = 4"
  by (simp add: seleniumWaits_def Let_def)

lemma length_seleniumLocators: "length (seleniumLocators src) = 4"
  by (simp add: seleniumLocators_def Let_def)

text \<open>
  A configured identifier never yields the single result of the default case.
\<close>

lemma configured_has_rules:
  "lang \<in> set configured \<Longrightarrow> 3 \<le> length (analyzeDebugFixes src lang)"
  by (auto simp: configured_def analyzeDebugFixes_def length_seleniumSenior
      length_javaCalculator length_seleniumCombined length_seleniumPageobject
      length_seleniumWaits length_seleniumLocators)

text \<open>
  C7. For every source text, grading a challenge identifier that is none of the
  configured ones returns exactly one result, the synthetic \<^verbatim>\<open>Unknown Test\<close>, whose
  \<^verbatim>\<open>passed\<close> flag is false; the function neither raises nor returns an empty list.
\<close>

theorem unknown_variant_single_failed_result:
  assumes "lang \<notin> set configured"
  shows "analyzeDebugFixes src lang =
           [\<lparr>name = ''Unknown Test'', passed = False,
             message = ''Select a debugging challenge to see test results''\<rparr>]
         \<and> length (analyzeDebugFixes src lang) = 1
         \<and> \<not> passed (hd (analyzeDebugFixes src lang))"
  using assms by (simp add: analyzeDebugFixes_def configured_def)

theorem unknown_variant_single_failed_result_witness:
  "''python'' \<notin> set configured
   \<and> analyzeDebugFixes ''print(1)'' ''python'' =
           [\<lparr>name = ''Unknown Test'', passed = False,
             message = ''Select a debugging challenge to see test results''\<rparr>]
   \<and> length (analyzeDebugFixes ''print(1)'' ''python'') = 1
   \<and> \<not> passed (hd (analyzeDebugFixes ''print(1)'' ''python''))"
proof -
  have h: "''python'' \<notin> set configured"
    by (simp add: configured_def)
  from unknown_variant_single_failed_result [OF h, of "''print(1)''"] h
  show ?thesis by blast
qed

subsection \<open>The names and messages of the results do not depend on the text\<close>

text \<open>
  In every branch the names of the results are fixed, and the message of a result is
  chosen by its flag alone.
\<close>

lemma names_seleniumSenior: "map name (seleniumSenior src) = map name (seleniumSenior src')"
  by (simp add: seleniumSenior_def Let_def)

lemma names_javaCalculator: "map name (javaCalculator src) = map name (javaCalculator src')"
  by (simp add: javaCalculator_def Let_def)

lemma names_seleniumCombined: "map name (seleniumCombined src) = map name (seleniumCombined src')"
  by (simp add: seleniumCombined_def Let_def)

lemma names_seleniumPageobject:
  "map name (seleniumPageobject src) = map name (seleniumPageobject src')"
  by (simp add: seleniumPageobject_def Let_def)

lemma names_seleniumWaits: "map name (seleniumWaits src) = map name (seleniumWaits src')"
  by (simp add: seleniumWaits_def Let_def)

lemma names_seleniumLocators: "map name (seleniumLocators src) = map name (seleniumLocators src')"
  by (simp add: seleniumLocators_def Let_def)

lemma flags_seleniumSenior:
  "map passed (seleniumSenior src) = map passed (seleniumSenior src') \<Longrightarrow>
   seleniumSenior src = seleniumSenior src'"
  by (simp add: seleniumSenior_def Let_def)

lemma flags_javaCalculator:
  "map passed (javaCalculator src) = map passed (javaCalculator src') \<Longrightarrow>
   javaCalculator src = javaCalculator src'"
  by (simp add: javaCalculator_def Let_def)

lemma flags_seleniumCombined:
  "map passed (seleniumCombined src) = map passed (seleniumCombined src') \<Longrightarrow>
   seleniumCombined src = seleniumCombined src'"
  by (simp add: seleniumCombined_def Let_def)

lemma flags_seleniumPageobject:
  "map passed (seleniumPageobject src) = map passed (seleniumPageobject src') \<Longrightarrow>
   seleniumPageobject src = seleniumPageobject src'"
  by (simp add: seleniumPageobject_def Let_def)

lemma flags_seleniumWaits:
  "map passed (seleniumWaits src) = map passed (seleniumWaits src') \<Longrightarrow>
   seleniumWaits src = seleniumWaits src'"
  by (simp add: seleniumWaits_def Let_def)

lemma flags_seleniumLocators:
  "map passed (seleniumLocators src) = map passed (seleniumLocators src') \<Longrightarrow>
   seleniumLocators src = seleniumLocators src'"
  by (simp add: seleniumLocators_def Let_def)

lemma analyze_names:
  "map name (analyzeDebugFixes src lang) = map name (analyzeDebugFixes src' lang)"
  unfolding analyzeDebugFixes_def
  using names_seleniumSenior names_javaCalculator names_seleniumCombined
    names_seleniumPageobject names_seleniumWaits names_seleniumLocators
  by simp

lemma analyze_flags:
  "map passed (analyzeDebugFixes src lang) = map passed (analyzeDebugFixes src' lang) \<Longrightarrow>
   analyzeDebugFixes src lang = analyzeDebugFixes src' lang"
  unfolding analyzeDebugFixes_def
  using flags_seleniumSenior flags_javaCalculator flags_seleniumCombined
    flags_seleniumPageobject flags_seleniumWaits flags_seleniumLocators
  by (simp split: if_splits)

subsection \<open>Running the matcher on a concrete text\<close>

text \<open>
  A scan can step over every position whose character is not the one the expression
  starts with. The rules below replace the defining equations of the matcher while a
  concrete text is evaluated: they consume one character at a time under a condition
  on that character alone. \<open>greedy_same\<close> is the common case \<^verbatim>\<open>[^x]*x\<close>: a run of
  characters other than \<open>x\<close>, followed by \<open>x\<close>, ends at the first \<open>x\<close>.
\<close>

lemma lead_run: "lead r = Some k \<Longrightarrow> c \<noteq> k \<Longrightarrow> run r (c # cs) f = None"
  by (induction r arbitrary: f rule: lead.induct) auto

lemma lead_matchAt:
  "lead pre = Some k \<Longrightarrow> c \<noteq> k \<Longrightarrow> matchAt pre grp post (c # cs) = None"
  by (simp add: matchAt_def lead_run)

lemma match'_skip:
  "lead pre \<noteq> None \<Longrightarrow> lead pre \<noteq> Some c \<Longrightarrow>
     match' pre grp post (c # cs) = match' pre grp post cs"
  by (auto simp: lead_matchAt)

lemma match'_try:
  "lead pre = Some c \<Longrightarrow>
     match' pre grp post (c # cs) =
       (case matchAt pre grp post (c # cs) of
          None \<Rightarrow> match' pre grp post cs
        | Some m \<Rightarrow> Some m)"
  by simp

lemma run_Lit_Nil: "run (Lit []) s k = k s"
  by simp

lemma run_Lit_hit: "c = x \<Longrightarrow> run (Lit (x # l)) (c # cs) k = run (Lit l) cs k"
  by simp

lemma run_Lit_miss: "c \<noteq> x \<Longrightarrow> run (Lit (x # l)) (c # cs) k = None"
  by simp

lemma run_Lit_end: "run (Lit (x # l)) [] k = None"
  by simp

text \<open>
  The classes at a character of one byte: an ASCII white space is accepted by \<^verbatim>\<open>\s\<close>,
  and a byte that starts none of the listed encodings is not.
\<close>

lemma ws_ascii:
  assumes "c \<in> set [CHR 0x09, CHR 0x0A, CHR 0x0B, CHR 0x0C, CHR 0x0D, CHR 0x20]"
  shows "ws (c # cs) = 1"
proof -
  from assms consider "c = CHR 0x09" | "c = CHR 0x0A" | "c = CHR 0x0B" | "c = CHR 0x0C"
    | "c = CHR 0x0D" | "c = CHR 0x20"
    by auto
  then show ?thesis
    by cases (simp_all add: ws_def whiteSpace_def)
qed

lemma ws_other:
  "c \<notin> set [CHR 0x09, CHR 0x0A, CHR 0x0B, CHR 0x0C, CHR 0x0D, CHR 0x20,
              CHR 0xC2, CHR 0xE1, CHR 0xE2, CHR 0xE3, CHR 0xEF] \<Longrightarrow> ws (c # cs) = 0"
  by (simp add: ws_def whiteSpace_def)

lemma ws_Nil: "ws [] = 0"
  by (simp add: ws_def whiteSpace_def)

lemma notc_Cons: "notc x (c # cs) = (if c \<noteq> x then 1 else 0)"
  by (simp add: notc_def byte_def)

lemma greedy_Nil: "greedy u [] k = k []"
  by (simp add: greedy.simps)

lemma greedy_ws:
  "c \<notin> set [CHR 0xC2, CHR 0xE1, CHR 0xE2, CHR 0xE3, CHR 0xEF] \<Longrightarrow>
   greedy ws (c # cs) k =
     (if c \<in> set [CHR 0x09, CHR 0x0A, CHR 0x0B, CHR 0x0C, CHR 0x0D, CHR 0x20]
      then (case greedy ws cs k of None \<Rightarrow> k (c # cs) | Some m \<Rightarrow> Some m)
      else k (c # cs))"
  by (subst greedy.simps) (auto simp: ws_ascii ws_other)

lemma greedy_notc:
  "NO_MATCH (\<lambda>t. run (Lit (x # l)) t (k' t)) k \<Longrightarrow>
   greedy (notc x) (c # cs) k =
     (if c \<noteq> x then (case greedy (notc x) cs k of None \<Rightarrow> k (c # cs) | Some m \<Rightarrow> Some m)
      else k (c # cs))"
  by (subst greedy.simps) (simp add: notc_Cons)

lemma greedy_same:
  "greedy (notc x) s (\<lambda>t. run (Lit (x # l)) t (k t))
     = run (Lit (x # l)) (dropWhile (\<lambda>c. c \<noteq> x) s) (k (dropWhile (\<lambda>c. c \<noteq> x) s))"
proof (induction s)
  case Nil
  show ?case by (simp add: greedy_Nil)
next
  case (Cons c s)
  show ?case
  proof (cases "c = x")
    case True
    then show ?thesis by (subst greedy.simps) (simp add: notc_Cons)
  next
    case False
    let ?K = "\<lambda>t. run (Lit (x # l)) t (k t)"
    have miss: "?K (c # s) = None"
      using False by simp
    have "greedy (notc x) (c # s) ?K =
            (case greedy (notc x) s ?K of None \<Rightarrow> ?K (c # s) | Some m \<Rightarrow> Some m)"
      by (subst greedy.simps) (simp add: notc_Cons False)
    also have "\<dots> = greedy (notc x) s ?K"
      unfolding miss by (simp split: option.splits)
    also have "\<dots> = run (Lit (x # l)) (dropWhile (\<lambda>c. c \<noteq> x) s)
                       (k (dropWhile (\<lambda>c. c \<noteq> x) s))"
      by (rule Cons.IH)
    also have "\<dots> = run (Lit (x # l)) (dropWhile (\<lambda>c. c \<noteq> x) (c # s))
                       (k (dropWhile (\<lambda>c. c \<noteq> x) (c # s)))"
      using False by simp
    finally show ?thesis .
  qed
qed

lemma run_Plus_ws_hit:
  "c \<in> set [CHR 0x09, CHR 0x0A, CHR 0x0B, CHR 0x0C, CHR 0x0D, CHR 0x20] \<Longrightarrow>
   run (Plus ws) (c # cs) k = greedy ws cs k"
  by (simp add: ws_ascii)

lemma run_Plus_ws_miss:
  "c \<notin> set [CHR 0x09, CHR 0x0A, CHR 0x0B, CHR 0x0C, CHR 0x0D, CHR 0x20,
              CHR 0xC2, CHR 0xE1, CHR 0xE2, CHR 0xE3, CHR 0xEF] \<Longrightarrow>
   run (Plus ws) (c # cs) k = None"
  by (simp add: ws_other)

lemma run_Plus_notc_hit: "c \<noteq> x \<Longrightarrow> run (Plus (notc x)) (c # cs) k = greedy (notc x) cs k"
  by (simp add: notc_Cons)

lemma run_Plus_notc_miss: "c = x \<Longrightarrow> run (Plus (notc x)) (c # cs) k = None"
  by (simp add: notc_Cons)

lemma run_Plus_end: "run (Plus u) [] k = None"
  by simp

lemma dropWhile_go: "P c \<Longrightarrow> dropWhile P (c # cs) = dropWhile P cs"
  by simp

lemma dropWhile_stop: "\<not> P c \<Longrightarrow> dropWhile P (c # cs) = c # cs"
  by simp

lemmas scan = match'_skip match'_try matches_def matchGroup_def matchWhole_def methodOpen_def
  methodOpenPlain_def methodLazy_def matchAt_def orElse_def
  run_Lit_Nil run_Lit_hit run_Lit_miss run_Lit_end
  run_Plus_ws_hit run_Plus_ws_miss run_Plus_notc_hit run_Plus_notc_miss run_Plus_end
  greedy_Nil greedy_same greedy_ws greedy_notc dropWhile_go dropWhile_stop

lemmas noscan = match'.simps(2) run.simps(1) run.simps(3) dropWhile.simps(2)

lemma seniorSolved_passes: "map passed (seleniumSenior seniorSolved) = replicate 10 True"
  by (simp del: noscan add: scan seleniumSenior_def seniorSolved_def numeral_eq_Suc)

lemma locatorsClean_passes: "map passed (seleniumLocators locatorsClean) = replicate 4 True"
  by (simp del: noscan add: scan seleniumLocators_def locatorsClean_def numeral_eq_Suc)

section \<open>Properties of the score\<close>

lemma passedTests_all:
  "map passed rs = replicate n True \<Longrightarrow> passedTests rs = n"
proof (induction rs arbitrary: n)
  case Nil
  then show ?case by (simp add: passedTests_def)
next
  case (Cons r rs)
  then obtain m where "n = Suc m" by (cases n) auto
  with Cons show ?case by (auto simp: passedTests_def)
qed

lemma passedTests_list_all: "list_all passed rs \<Longrightarrow> passedTests rs = length rs"
  by (induction rs) (auto simp: passedTests_def)

text \<open>
  C2, as stated, fails: the per-bug value is not 10 divided by the number of rules
  of the challenge. On a text that satisfies all four rules of \<^verbatim>\<open>selenium-locators\<close>
  the handler reports success with a total of 4 points, one point for each rule, where
  10 divided by 4 would be 2.5 for each.
\<close>

theorem locators_clean_sweep_is_four_counterexample:
  "list_all passed (analyzeDebugFixes locatorsClean ''selenium-locators'')
   \<and> length (analyzeDebugFixes locatorsClean ''selenium-locators'') = 4
   \<and> totalPoints (analyzeDebugFixes locatorsClean ''selenium-locators'') = 4
   \<and> success (analyzeDebugFixes locatorsClean ''selenium-locators'')
   \<and> totalPoints [hd (analyzeDebugFixes locatorsClean ''selenium-locators'')] = 1
   \<and> (1 :: rat) \<noteq> 10 / of_nat (length (analyzeDebugFixes locatorsClean ''selenium-locators''))"
proof -
  have a: "analyzeDebugFixes locatorsClean ''selenium-locators'' = seleniumLocators locatorsClean"
    by (simp add: analyzeDebugFixes_def)
  have l: "length (seleniumLocators locatorsClean) = 4"
    by (rule length_seleniumLocators)
  have p: "list_all passed (seleniumLocators locatorsClean)"
    using locatorsClean_passes
    by (metis (no_types, lifting) Ball_set in_set_replicate length_map list.set_map
        map_eq_conv map_replicate_const image_iff)
  have t: "totalPoints (seleniumLocators locatorsClean) = 4"
    using passedTests_all [OF locatorsClean_passes] by (simp add: totalPoints_def)
  have s: "success (seleniumLocators locatorsClean)"
    using passedTests_all [OF locatorsClean_passes] l by (simp add: success_def totalTests_def)
  have h: "passed (hd (seleniumLocators locatorsClean))"
    using p l by (cases "seleniumLocators locatorsClean") auto
  then have o: "totalPoints [hd (seleniumLocators locatorsClean)] = 1"
    by (simp add: totalPoints_def passedTests_def)
  from a l p t s o show ?thesis by simp
qed

text \<open>
  C2, amended. Every passed rule is worth one point, whatever the challenge: on the
  server the total is the number of passed results times 1.0, on the page each passed
  bug has 1.0 points. \<^verbatim>\<open>selenium-senior\<close> has ten rules, so there one point is 10 divided
  by the number of rules, and a text that passes every rule scores exactly 10.
\<close>

theorem one_point_per_passed_rule:
  "totalPoints rs = of_nat (length (filter passed rs))
   \<and> points (bugResult n p) = (if p then 1 else 0)
   \<and> length (analyzeDebugFixes src ''selenium-senior'') = 10
   \<and> (1 :: rat) = 10 / of_nat (length (analyzeDebugFixes src ''selenium-senior''))
   \<and> (list_all passed (analyzeDebugFixes src ''selenium-senior'') \<longrightarrow>
        totalPoints (analyzeDebugFixes src ''selenium-senior'') = 10)"
proof -
  have a: "analyzeDebugFixes src ''selenium-senior'' = seleniumSenior src"
    by (simp add: analyzeDebugFixes_def)
  have b: "list_all passed (seleniumSenior src) \<longrightarrow> totalPoints (seleniumSenior src) = 10"
    using passedTests_list_all [of "seleniumSenior src"]
    by (simp add: totalPoints_def length_seleniumSenior)
  have c: "totalPoints rs = of_nat (length (filter passed rs))"
    by (simp add: totalPoints_def passedTests_def)
  have d: "points (bugResult n p) = (if p then 1 else 0)"
    by (simp add: bugResult_def)
  have e: "length (seleniumSenior src) = 10"
    by (rule length_seleniumSenior)
  from b c d e show ?thesis
    unfolding a by simp
qed

theorem one_point_per_passed_rule_witness:
  "list_all passed (analyzeDebugFixes seniorSolved ''selenium-senior'')
   \<and> totalPoints (analyzeDebugFixes seniorSolved ''selenium-senior'') = 10"
proof -
  have a: "analyzeDebugFixes seniorSolved ''selenium-senior'' = seleniumSenior seniorSolved"
    by (simp add: analyzeDebugFixes_def)
  have "\<forall>r \<in> set (seleniumSenior seniorSolved). passed r"
  proof
    fix r assume "r \<in> set (seleniumSenior seniorSolved)"
    then have "passed r \<in> set (map passed (seleniumSenior seniorSolved))" by simp
    then show "passed r" by (simp add: seniorSolved_passes)
  qed
  then have p: "list_all passed (analyzeDebugFixes seniorSolved ''selenium-senior'')"
    by (simp add: a list_all_iff)
  with one_point_per_passed_rule [of _ _ _ seniorSolved] show ?thesis by blast
qed

subsection \<open>The score card of the page\<close>

lemma mathRound_mono: "x \<le> y \<Longrightarrow> mathRound x \<le> mathRound y"
  by (simp add: mathRound_def floor_mono)

lemma mathRound_of_int: "mathRound (of_int n) = n"
  unfolding mathRound_def by linarith

lemma mathRound_numeral: "mathRound (numeral k) = numeral k"
  using mathRound_of_int [of "numeral k"] by simp

lemma score_mono:
  assumes "pageTotalPoints pg \<le> pageTotalPoints pg'"
  shows "cardScore (calculateScore pg) \<le> cardScore (calculateScore pg')"
proof -
  have "mathRound (pageTotalPoints pg * 10) \<le> mathRound (pageTotalPoints pg' * 10)"
    using assms by (intro mathRound_mono) simp
  then have "(of_int (mathRound (pageTotalPoints pg * 10)) :: rat) / 10
               \<le> of_int (mathRound (pageTotalPoints pg' * 10)) / 10"
    by (simp add: divide_right_mono)
  then show ?thesis
    by (simp add: calculateScore_def Let_def min_def)
qed

lemma score_capped: "cardScore (calculateScore pg) \<le> 10"
  by (simp add: calculateScore_def Let_def)

lemma percentage_def': 
  "cardPercentage (calculateScore pg) = mathRound (cardScore (calculateScore pg) / 10 * 100)"
  by (simp add: calculateScore_def Let_def)

lemma sumPoints_update_mono:
  assumes "sum_list (map points v) \<le> sum_list (map points w)"
  shows "sumPoints (AList.update k v al) \<le> sumPoints (AList.update k w al)"
  using assms by (induction al) (auto simp: sumPoints_def)

lemma points_flips:
  assumes "flipsToPass xs ys"
  shows "sum_list (map points (bugResultsOf xs)) \<le> sum_list (map points (bugResultsOf ys))"
  using assms unfolding flipsToPass_def
proof (induction rule: list_all2_induct)
  case Nil
  show ?case by (simp add: bugResultsOf_def)
next
  case (Cons x xs y ys)
  have "points (bugResult (fst x) (snd x)) \<le> points (bugResult (fst y) (snd y))"
    using Cons.hyps(1) by (auto simp: bugResult_def)
  with Cons.IH show ?case
    by (simp add: bugResultsOf_def case_prod_beta add_mono)
qed

lemma flips_length: "flipsToPass xs ys \<Longrightarrow> length xs = length ys"
  by (simp add: flipsToPass_def list_all2_lengthD)

lemma total_mono:
  assumes "flipsToPass xs ys"
  shows "pageTotalPoints (onExecutionResult lang (bugResultsOf xs) pg)
           \<le> pageTotalPoints (onExecutionResult lang (bugResultsOf ys) pg)"
proof (cases "xs = []")
  case True
  with flips_length [OF assms] have "ys = []" by simp
  with True show ?thesis by simp
next
  case False
  with flips_length [OF assms] have "ys \<noteq> []" by auto
  with False sumPoints_update_mono [OF points_flips [OF assms], of lang "pageBugResults pg"]
  show ?thesis
    by (simp add: onExecutionResult_def Let_def bugResultsOf_def min_def)
qed

lemma total_capped:
  "bs \<noteq> [] \<Longrightarrow> pageTotalPoints (onExecutionResult lang bs pg) \<le> 10"
  by (simp add: onExecutionResult_def Let_def)

lemma page_one:
  "onExecutionResult ''selenium-senior'' (bugResultsOf threeBugsOnePassed) initialPage
     = \<lparr>pageBugResults = [(''selenium-senior'', bugResultsOf threeBugsOnePassed)],
        pageTotalPoints = 1\<rparr>"
  by (simp add: onExecutionResult_def initialPage_def bugResultsOf_def threeBugsOnePassed_def
      sumPoints_def bugResult_def Let_def)

lemma page_two:
  "onExecutionResult ''selenium-senior'' (bugResultsOf threeBugsTwoPassed) initialPage
     = \<lparr>pageBugResults = [(''selenium-senior'', bugResultsOf threeBugsTwoPassed)],
        pageTotalPoints = 2\<rparr>"
  by (simp add: onExecutionResult_def initialPage_def bugResultsOf_def threeBugsTwoPassed_def
      sumPoints_def bugResult_def Let_def)

lemma page_eleven:
  "pageTotalPoints (onExecutionResult ''selenium-combined'' (bugResultsOf elevenBugsPassed) initialPage)
     = 10"
  by (simp add: onExecutionResult_def initialPage_def bugResultsOf_def elevenBugsPassed_def
      sumPoints_def bugResult_def Let_def)

text \<open>
  C6. When outcomes of the current challenge flip from fail to pass, the total the
  page keeps and the score it reports do not decrease; the total is capped at 10 however
  many outcomes are passed, the score never exceeds 10, and the percentage is
  \<^verbatim>\<open>Math.round(score / 10 * 100)\<close>.
\<close>

theorem score_monotone_capped_percentage:
  "(flipsToPass xs ys \<longrightarrow>
      pageTotalPoints (onExecutionResult lang (bugResultsOf xs) pg)
        \<le> pageTotalPoints (onExecutionResult lang (bugResultsOf ys) pg)
      \<and> cardScore (calculateScore (onExecutionResult lang (bugResultsOf xs) pg))
        \<le> cardScore (calculateScore (onExecutionResult lang (bugResultsOf ys) pg)))
   \<and> (bs \<noteq> [] \<longrightarrow> pageTotalPoints (onExecutionResult lang bs pg) \<le> 10)
   \<and> cardScore (calculateScore pg) \<le> 10
   \<and> cardPercentage (calculateScore pg) = mathRound (cardScore (calculateScore pg) / 10 * 100)"
  using total_mono [of xs ys lang pg] score_mono total_capped [of bs lang pg]
    score_capped [of pg] percentage_def' [of pg]
  by blast

theorem score_monotone_capped_percentage_witness:
  "flipsToPass threeBugsOnePassed threeBugsTwoPassed
   \<and> cardScore (calculateScore
        (onExecutionResult ''selenium-senior'' (bugResultsOf threeBugsOnePassed) initialPage)) = 1
   \<and> cardPercentage (calculateScore
        (onExecutionResult ''selenium-senior'' (bugResultsOf threeBugsOnePassed) initialPage)) = 10
   \<and> cardScore (calculateScore
        (onExecutionResult ''selenium-senior'' (bugResultsOf threeBugsTwoPassed) initialPage)) = 2
   \<and> cardScore (calculateScore
        (onExecutionResult ''selenium-senior'' (bugResultsOf threeBugsOnePassed) initialPage))
      \<le> cardScore (calculateScore
        (onExecutionResult ''selenium-senior'' (bugResultsOf threeBugsTwoPassed) initialPage))
   \<and> bugResultsOf elevenBugsPassed \<noteq> []
   \<and> pageTotalPoints
        (onExecutionResult ''selenium-combined'' (bugResultsOf elevenBugsPassed) initialPage) = 10
   \<and> pageTotalPoints
        (onExecutionResult ''selenium-combined'' (bugResultsOf elevenBugsPassed) initialPage) \<le> 10"
proof -
  have f: "flipsToPass threeBugsOnePassed threeBugsTwoPassed"
    by (simp add: flipsToPass_def threeBugsOnePassed_def threeBugsTwoPassed_def)
  have n: "bugResultsOf elevenBugsPassed \<noteq> []"
    by (simp add: bugResultsOf_def elevenBugsPassed_def)
  have s1: "cardScore (calculateScore
        (onExecutionResult ''selenium-senior'' (bugResultsOf threeBugsOnePassed) initialPage)) = 1"
    by (simp add: page_one calculateScore_def Let_def mathRound_numeral)
  have p1: "cardPercentage (calculateScore
        (onExecutionResult ''selenium-senior'' (bugResultsOf threeBugsOnePassed) initialPage)) = 10"
    by (simp add: page_one calculateScore_def Let_def mathRound_numeral)
  have s2: "cardScore (calculateScore
        (onExecutionResult ''selenium-senior'' (bugResultsOf threeBugsTwoPassed) initialPage)) = 2"
    by (simp add: page_two calculateScore_def Let_def mathRound_numeral)
  note r1 = score_monotone_capped_percentage
    [of threeBugsOnePassed threeBugsTwoPassed "''selenium-senior''" initialPage]
  note r2 = score_monotone_capped_percentage
    [of _ _ "''selenium-combined''" initialPage "bugResultsOf elevenBugsPassed"]
  from r1 f have m: "cardScore (calculateScore
        (onExecutionResult ''selenium-senior'' (bugResultsOf threeBugsOnePassed) initialPage))
      \<le> cardScore (calculateScore
        (onExecutionResult ''selenium-senior'' (bugResultsOf threeBugsTwoPassed) initialPage))"
    by blast
  from r2 n have c: "pageTotalPoints
        (onExecutionResult ''selenium-combined'' (bugResultsOf elevenBugsPassed) initialPage) \<le> 10"
    by blast
  from f n s1 p1 s2 m c page_eleven show ?thesis by blast
qed

section \<open>Properties of the timer reconciliation\<close>







text \<open>
  Every store the server can reach satisfies the condition under which the frame
  property below is stated.
\<close>

lemma storeComplete_update:
  "storeComplete store \<Longrightarrow> timerComplete s \<Longrightarrow> storeComplete (AList.update k s store)"
  by (induction store) (auto simp: storeComplete_def)

lemma storeComplete_lookup:
  "storeComplete store \<Longrightarrow> map_of store k = Some s \<Longrightarrow> timerComplete s"
  by (induction store) (auto simp: storeComplete_def split: if_splits)

lemma reachable_storeComplete: "reachable store \<Longrightarrow> storeComplete store"
proof (induction rule: reachable.induct)
  case start
  show ?case by (simp add: storeComplete_def)
next
  case (create store newId now defaultCode name' problemTitle)
  then show ?case
    by (simp add: createSession_def Let_def storeComplete_update timerComplete_def)
next
  case (join store now sid)
  then show ?case
    by (auto simp: joinSession_def Let_def timerComplete_def
        intro!: storeComplete_update split: option.splits)
next
  case (change store sid newCode newLanguage)
  then show ?case
    by (auto simp: codeChange_def Let_def timerComplete_def
        intro!: storeComplete_update dest: storeComplete_lookup split: option.splits)
next
  case (lang store sid newLanguage)
  then show ?case
    by (auto simp: languageChange_def timerComplete_def
        intro!: storeComplete_update dest: storeComplete_lookup split: option.splits)
next
  case (timer store now sid phase instructionTime codingTime)
  then show ?case
    by (auto simp: timerUpdate_def timerComplete_def
        intro!: storeComplete_update split: option.splits)
next
  case (execute store sid src lang)
  then show ?case
    by (auto simp: executeCode_def Let_def timerComplete_def
        intro!: storeComplete_update dest: storeComplete_lookup split: option.splits)
next
  case (paste store timestamp sid)
  then show ?case
    by (auto simp: pasteAttempt_def split: option.splits)
next
  case (submit store results)
  then show ?case
    by (auto simp: testSubmitted_def timerComplete_def
        intro!: storeComplete_update dest: storeComplete_lookup split: option.splits)
next
  case (list store now)
  then show ?case by (simp add: getSessions_def)
qed










section \<open>Properties of the event handlers\<close>

text \<open>
  C5. A join for a completed session sends the caller \<^verbatim>\<open>session-expired\<close> and nothing
  else, in particular no session payload, and leaves the store as it is; a join for an
  identifier the store does not hold sends \<^verbatim>\<open>session-not-found\<close>. The two events differ.
\<close>

theorem join_completed_expired_absent_not_found:
  "(map_of store sid = None \<longrightarrow>
      joinSession now sid store = (store, [(Caller, SessionNotFound)]))
   \<and> (\<forall>s. map_of store sid = Some s \<and> status s = completed \<longrightarrow>
      joinSession now sid store = (store, [(Caller, SessionExpired expiredMessage)])
      \<and> (\<forall>a d. (a, SessionData d) \<notin> set (snd (joinSession now sid store))))
   \<and> SessionExpired expiredMessage \<noteq> SessionNotFound"
  by (auto simp: joinSession_def expiredMessage_def)

theorem join_completed_expired_absent_not_found_witness:
  "map_of [(''s1'', finishedSession)] ''s2'' = None
   \<and> joinSession 5 ''s2'' [(''s1'', finishedSession)]
       = ([(''s1'', finishedSession)], [(Caller, SessionNotFound)])
   \<and> map_of [(''s1'', finishedSession)] ''s1'' = Some finishedSession
   \<and> status finishedSession = completed
   \<and> joinSession 5 ''s1'' [(''s1'', finishedSession)]
       = ([(''s1'', finishedSession)], [(Caller, SessionExpired expiredMessage)])"
proof -
  have a: "map_of [(''s1'', finishedSession)] ''s2'' = None" by simp
  have b: "map_of [(''s1'', finishedSession)] ''s1'' = Some finishedSession" by simp
  have c: "status finishedSession = completed"
    by (simp add: finishedSession_def)
  from join_completed_expired_absent_not_found [of "[(''s1'', finishedSession)]" "''s2''" 5] a
  have d: "joinSession 5 ''s2'' [(''s1'', finishedSession)]
       = ([(''s1'', finishedSession)], [(Caller, SessionNotFound)])" by blast
  from join_completed_expired_absent_not_found [of "[(''s1'', finishedSession)]" "''s1''" 5] b c
  have e: "joinSession 5 ''s1'' [(''s1'', finishedSession)]
       = ([(''s1'', finishedSession)], [(Caller, SessionExpired expiredMessage)])" by blast
  from a b c d e show ?thesis by blast
qed

text \<open>
  C9. A code change for a session the store holds is delivered to every open
  connection other than the one it came from, and not to that one.
\<close>

theorem code_change_reaches_all_but_sender:
  assumes "map_of store sid = Some session"
  shows "inbox conns sender (snd (codeChange sid newCode newLanguage store)) sender = []
       \<and> (\<forall>c \<in> conns. c \<noteq> sender \<longrightarrow>
            inbox conns sender (snd (codeChange sid newCode newLanguage store)) c
              = [CodeUpdate sid newCode
                   (case newLanguage of None \<Rightarrow> language session
                    | Some l \<Rightarrow> if l = [] then language session else l)])"
  using assms by (auto simp: codeChange_def inbox_def recipients_def Let_def split: option.splits)

theorem code_change_reaches_all_but_sender_witness:
  "map_of [(''s1'', exampleSession)] ''s1'' = Some exampleSession
   \<and> inbox {1, 2, 3 :: nat} 1 (snd (codeChange ''s1'' ''int x;'' None [(''s1'', exampleSession)])) 1 = []
   \<and> inbox {1, 2, 3 :: nat} 1 (snd (codeChange ''s1'' ''int x;'' None [(''s1'', exampleSession)])) 2
        = [CodeUpdate ''s1'' ''int x;'' ''selenium-senior'']
   \<and> inbox {1, 2, 3 :: nat} 1 (snd (codeChange ''s1'' ''int x;'' None [(''s1'', exampleSession)])) 3
        = [CodeUpdate ''s1'' ''int x;'' ''selenium-senior'']"
proof -
  have h: "map_of [(''s1'', exampleSession)] ''s1'' = Some exampleSession" by simp
  have l: "language exampleSession = ''selenium-senior''"
    by (simp add: exampleSession_def)
  from code_change_reaches_all_but_sender [OF h, of "{1, 2, 3 :: nat}" 1 "''int x;''" None] h l
  show ?thesis by simp
qed

text \<open>
  C10. A submission is broadcast to every connection whether or not the store holds
  the session and whatever its status; the status becomes \<^verbatim>\<open>completed\<close> when the store
  holds the session, and the store is unchanged when it does not.
\<close>

theorem test_submitted_always_broadcasts:
  "snd (testSubmitted results store) = [(Everyone, CandidateTestResults results)]
   \<and> (\<forall>c \<in> conns. inbox conns sender (snd (testSubmitted results store)) c
         = [CandidateTestResults results])
   \<and> (map_of store (sessionId results) = None \<longrightarrow> fst (testSubmitted results store) = store)
   \<and> (\<forall>s. map_of store (sessionId results) = Some s \<longrightarrow>
         fst (testSubmitted results store)
           = AList.update (sessionId results) (s\<lparr>status := completed\<rparr>) store
         \<and> map_of (fst (testSubmitted results store)) (sessionId results)
           = Some (s\<lparr>status := completed\<rparr>))"
  by (auto simp: testSubmitted_def inbox_def recipients_def update_conv')

theorem test_submitted_always_broadcasts_witness:
  "map_of [] (sessionId exampleSubmission) = (None :: InterviewSession option)
   \<and> testSubmitted exampleSubmission [] = ([], [(Everyone, CandidateTestResults exampleSubmission)])
   \<and> map_of [(''s1'', finishedSession)] (sessionId exampleSubmission) = Some finishedSession
   \<and> testSubmitted exampleSubmission [(''s1'', finishedSession)]
        = ([(''s1'', finishedSession)], [(Everyone, CandidateTestResults exampleSubmission)])
   \<and> map_of [(''s1'', exampleSession)] (sessionId exampleSubmission) = Some exampleSession
   \<and> testSubmitted exampleSubmission [(''s1'', exampleSession)]
        = ([(''s1'', finishedSession)], [(Everyone, CandidateTestResults exampleSubmission)])
   \<and> inbox {1, 2 :: nat} 1 (snd (testSubmitted exampleSubmission [])) 1
        = [CandidateTestResults exampleSubmission]
   \<and> inbox {1, 2 :: nat} 1 (snd (testSubmitted exampleSubmission [])) 2
        = [CandidateTestResults exampleSubmission]"
proof -
  have k: "sessionId exampleSubmission = ''s1''" by (simp add: exampleSubmission_def)
  have a: "map_of [] (sessionId exampleSubmission) = (None :: InterviewSession option)" by simp
  have b: "map_of [(''s1'', finishedSession)] (sessionId exampleSubmission) = Some finishedSession"
    by (simp add: k)
  have c: "map_of [(''s1'', exampleSession)] (sessionId exampleSubmission) = Some exampleSession"
    by (simp add: k)
  have f: "finishedSession\<lparr>status := completed\<rparr> = finishedSession"
    by (simp add: finishedSession_def)
  note t0 = test_submitted_always_broadcasts [of exampleSubmission "[]" "{1, 2 :: nat}" 1]
  note t1 = test_submitted_always_broadcasts [of exampleSubmission "[(''s1'', finishedSession)]" "{1, 2 :: nat}" 1]
  note t2 = test_submitted_always_broadcasts [of exampleSubmission "[(''s1'', exampleSession)]" "{1, 2 :: nat}" 1]
  from t0 a have r0: "testSubmitted exampleSubmission [] = ([], [(Everyone, CandidateTestResults exampleSubmission)])"
    by (metis prod.collapse)
  from t1 b f have r1: "testSubmitted exampleSubmission [(''s1'', finishedSession)]
        = ([(''s1'', finishedSession)], [(Everyone, CandidateTestResults exampleSubmission)])"
    by (simp add: k prod_eq_iff)
  from t2 c have r2: "testSubmitted exampleSubmission [(''s1'', exampleSession)]
        = ([(''s1'', finishedSession)], [(Everyone, CandidateTestResults exampleSubmission)])"
    by (simp add: k prod_eq_iff finishedSession_def)
  from t0 have "\<forall>c \<in> {1, 2 :: nat}. inbox {1, 2 :: nat} 1 (snd (testSubmitted exampleSubmission [])) c
        = [CandidateTestResults exampleSubmission]" by blast
  then have r3: "inbox {1, 2 :: nat} 1 (snd (testSubmitted exampleSubmission [])) 1
        = [CandidateTestResults exampleSubmission]
     \<and> inbox {1, 2 :: nat} 1 (snd (testSubmitted exampleSubmission [])) 2
        = [CandidateTestResults exampleSubmission]" by blast
  from a b c r0 r1 r2 r3 show ?thesis by blast
qed

text \<open>
  C1, as stated, fails: a code change and a timer update addressed to a completed
  session are stored and broadcast.
\<close>

theorem completed_session_still_mutable_counterexample:
  "status finishedSession = completed
   \<and> map_of [(''s1'', finishedSession)] ''s1'' = Some finishedSession
   \<and> code finishedSession = ''// start''
   \<and> codeChange ''s1'' ''int x;'' None [(''s1'', finishedSession)]
        = ([(''s1'', finishedSession\<lparr>code := ''int x;''\<rparr>)],
           [(Others, CodeUpdate ''s1'' ''int x;'' ''selenium-senior'')])
   \<and> codingTimeRemaining finishedSession = Some 120
   \<and> timerUpdate 2000000 ''s1'' False 0 900 [(''s1'', finishedSession)]
        = ([(''s1'', finishedSession\<lparr>isInstructionPhase := Some False,
               instructionTimeRemaining := Some 0, codingTimeRemaining := Some 900,
               lastTimerUpdate := Some 2000000\<rparr>)],
           [(Everyone, TimerUpdate ''s1'' False 0 900)])"
  by (simp add: finishedSession_def exampleSession_def codeChange_def timerUpdate_def)

text \<open>
  C1, amended. The two handlers do not look at the status. For a session the store
  holds, completed or not, a code change replaces the code (and the language, when one
  is given) and is sent to the other connections, a timer update replaces the timer
  fields and is sent to every connection, and neither changes the status: a completed
  session stays completed. Only an event for an identifier the store does not hold
  changes nothing and sends nothing.
\<close>

theorem completed_session_handled_like_any_other:
  "(\<forall>s. map_of store sid = Some s \<longrightarrow>
      codeChange sid newCode newLanguage store
        = (AList.update sid
             (s\<lparr>code := newCode,
                language := (case newLanguage of None \<Rightarrow> language s
                             | Some l \<Rightarrow> if l = [] then language s else l)\<rparr>) store,
           [(Others, CodeUpdate sid newCode
                (case newLanguage of None \<Rightarrow> language s
                 | Some l \<Rightarrow> if l = [] then language s else l))])
      \<and> timerUpdate now sid phase instructionTime codingTime store
        = (AList.update sid
             (s\<lparr>isInstructionPhase := Some phase,
                instructionTimeRemaining := Some instructionTime,
                codingTimeRemaining := Some codingTime,
                lastTimerUpdate := Some now\<rparr>) store,
           [(Everyone, TimerUpdate sid phase instructionTime codingTime)])
      \<and> (\<forall>s'. map_of (fst (codeChange sid newCode newLanguage store)) sid = Some s'
               \<or> map_of (fst (timerUpdate now sid phase instructionTime codingTime store)) sid
                    = Some s'
             \<longrightarrow> status s' = status s))
   \<and> (map_of store sid = None \<longrightarrow>
        codeChange sid newCode newLanguage store = (store, [])
        \<and> timerUpdate now sid phase instructionTime codingTime store = (store, []))"
  by (auto simp: codeChange_def timerUpdate_def Let_def update_conv' split: option.splits)

theorem completed_session_handled_like_any_other_witness:
  "map_of [(''s1'', finishedSession)] ''s1'' = Some finishedSession
   \<and> status finishedSession = completed
   \<and> map_of (fst (codeChange ''s1'' ''int x;'' (Some ''java-calculator'') [(''s1'', finishedSession)])) ''s1''
        = Some (finishedSession\<lparr>code := ''int x;'', language := ''java-calculator''\<rparr>)
   \<and> snd (codeChange ''s1'' ''int x;'' (Some ''java-calculator'') [(''s1'', finishedSession)])
        = [(Others, CodeUpdate ''s1'' ''int x;'' ''java-calculator'')]
   \<and> status (finishedSession\<lparr>code := ''int x;'', language := ''java-calculator''\<rparr>) = completed
   \<and> map_of [(''s1'', finishedSession)] ''s2'' = None
   \<and> codeChange ''s2'' ''int x;'' None [(''s1'', finishedSession)] = ([(''s1'', finishedSession)], [])
   \<and> timerUpdate 7 ''s2'' True 1 2 [(''s1'', finishedSession)] = ([(''s1'', finishedSession)], [])"
proof -
  have a: "map_of [(''s1'', finishedSession)] ''s1'' = Some finishedSession" by simp
  have b: "status finishedSession = completed" by (simp add: finishedSession_def)
  have c: "map_of [(''s1'', finishedSession)] ''s2'' = None" by simp
  note r1 = completed_session_handled_like_any_other
    [of "[(''s1'', finishedSession)]" "''s1''" "''int x;''" "Some ''java-calculator''" 7 True 1 2]
  note r2 = completed_session_handled_like_any_other
    [of "[(''s1'', finishedSession)]" "''s2''" "''int x;''" None 7 True 1 2]
  from r1 a have d: "codeChange ''s1'' ''int x;'' (Some ''java-calculator'') [(''s1'', finishedSession)]
     = ([(''s1'', finishedSession\<lparr>code := ''int x;'', language := ''java-calculator''\<rparr>)],
        [(Others, CodeUpdate ''s1'' ''int x;'' ''java-calculator'')])"
    by simp
  from r2 c have e: "codeChange ''s2'' ''int x;'' None [(''s1'', finishedSession)] = ([(''s1'', finishedSession)], [])
   \<and> timerUpdate 7 ''s2'' True 1 2 [(''s1'', finishedSession)] = ([(''s1'', finishedSession)], [])"
    by blast
  from a b c d e show ?thesis by simp
qed

end
